theory Spec2Isabelle
  imports Main "HOL-Library.Word"
begin

text \<open>
  The command dispatch core of the Alertmanager command responder: \<open>HandleAlert\<close>
  (\<^verbatim>\<open>internal/alert/alert.go\<close>) resolves the action of one alert from the defaults and
  the alert's annotations and dispatches it; \<open>runLocalCommand\<close> and \<open>runSSHCommand\<close>
  (\<^verbatim>\<open>internal/alert/commands.go\<close>) execute it. Each Go function is a function here;
  the log, the error counter and the calls that leave the process are an explicit \<open>world\<close>
  that the functions take and return; what the standard library, the ssh library, the
  machine and the network answer is a parameter \<open>env\<close>.
\<close>

section \<open>Data model\<close>

text \<open>
  A Go \<open>time.Duration\<close> is a signed 64-bit count of nanoseconds (read with \<open>sint\<close>).
  The code only stores and passes durations on; it does no arithmetic on them.
\<close>

type_synonym Duration = "64 word"

text \<open>
  What a Go function that returns an \<open>error\<close> ends with, when it does not end well: an
  error value, identified by its message (\<open>nil\<close> is \<open>None\<close> of \<open>error option\<close>), or a
  panic. A call that panics does not return: where a function below ends in \<open>Panic\<close>, the
  statements that follow the call are not run, in that function and in its callers. Of the
  calls that the functions below make, \<open>ssh.Dial\<close> ends so when it reaches a nil
  authentication method; the collaborators of \<open>env\<close> answer with error values.
\<close>

datatype error = ErrorString string | Panic string

fun is_panic :: "error option \<Rightarrow> bool" where
  "is_panic (Some (Panic v)) = True"
| "is_panic other = False"

text \<open>
  The type \<open>config.Config\<close> is declared outside the two source files. \<open>HandleAlert\<close> reads
  the fields \<open>User\<close>, \<open>SSHKey\<close>, \<open>SSHPassword\<close>, \<open>SSHKnownHosts\<close>,
  \<open>SSHHostKeyAlgorithms\<close>, \<open>SSHCommandTimeout\<close> and \<open>LocalCommandTimeout\<close> of it.
  Modelled from the spec: the remaining field \<open>SSHConnectionTimeout\<close>, which the data
  model lists among the fallback values of the default configuration. The fields carry the
  prefix \<open>cfg_\<close> because \<open>AlertResponse\<close> has fields of the same names.
\<close>

record Config =
  cfg_User :: string
  cfg_SSHKey :: string
  cfg_SSHPassword :: string
  cfg_SSHKnownHosts :: string
  cfg_SSHHostKeyAlgorithms :: "string list"
  cfg_SSHConnectionTimeout :: Duration
  cfg_SSHCommandTimeout :: Duration
  cfg_LocalCommandTimeout :: Duration

text \<open>The part of \<open>template.Alert\<close> that the code reads.\<close>

record Alert =
  Labels :: "string \<rightharpoonup> string"
  Annotations :: "string \<rightharpoonup> string"
  Fingerprint :: string

record AlertResponse =
  User :: string
  SSHKey :: string
  SSHPassword :: string
  SSHKnownHosts :: string
  SSHHostKeyAlgorithms :: "string list"
  SSHConnectionTimeout :: Duration
  SSHCommandTimeout :: Duration
  SSHHost :: string
  SSHCommand :: string
  LocalCommand :: string
  LocalCommandTimeout :: Duration

text \<open>The annotation keys, \<^verbatim>\<open>alert.go\<close> lines 25 to 33.\<close>

definition userAnnotation :: string where
  "userAnnotation = ''command_responder_user''"

definition sshKeyAnnotation :: string where
  "sshKeyAnnotation = ''command_responder_ssh_key''"

definition sshHostAnnotation :: string where
  "sshHostAnnotation = ''command_responder_ssh_host''"

definition sshCommandAnnotation :: string where
  "sshCommandAnnotation = ''command_responder_ssh_command''"

definition sshCommandTimeout :: string where
  "sshCommandTimeout = ''command_responder_ssh_command_timeout''"

definition localCommandAnnotation :: string where
  "localCommandAnnotation = ''command_responder_local_command''"

definition localCommandTimeout :: string where
  "localCommandTimeout = ''command_responder_local_command_timeout''"

section \<open>Side channels: log, error counter, calls that leave the process\<close>

datatype level = LevelDebug | LevelInfo | LevelError

text \<open>
  A value logged under a key. \<open>Base64 k\<close> stands for the standard base64 text of the
  bytes \<open>k\<close>, and \<open>Elapsed\<close> for \<open>time.Since(start).Seconds()\<close>, a reading of the wall
  clock; neither is computed here.
\<close>

datatype logval = Str string | Base64 string | ErrVal error | Elapsed

type_synonym keyvals = "(string \<times> logval) list"

text \<open>A go-kit logger is the list of key/value pairs that \<open>log.With\<close> has attached to it.\<close>

type_synonym Logger = keyvals

text \<open>What the process does to the outside, in the order it does it.\<close>

record Cmd =
  Path :: string
  Args :: "string list"

datatype effect =
    Spawn Cmd Duration
  | ReadFile string
  | KnownHostsNew string
  | Dial string
  | ConnClose string

text \<open>
  \<open>CommandErrorsTotal\<close> is the counter vector of the metrics package, read by the value of
  its one label \<open>type\<close>.
\<close>

record world =
  CommandErrorsTotal :: "string \<Rightarrow> nat"
  logged :: "(level \<times> keyvals) list"
  effects :: "effect list"

definition log_With :: "Logger \<Rightarrow> keyvals \<Rightarrow> Logger" where
  "log_With logger kvs = logger @ kvs"

definition Log :: "level \<Rightarrow> Logger \<Rightarrow> keyvals \<Rightarrow> world \<Rightarrow> world" where
  "Log lvl logger kvs w = w\<lparr>logged := logged w @ [(lvl, logger @ kvs)]\<rparr>"

definition Inc :: "string \<Rightarrow> world \<Rightarrow> world" where
  "Inc ty w = w\<lparr>CommandErrorsTotal := (CommandErrorsTotal w)(ty := Suc (CommandErrorsTotal w ty))\<rparr>"

definition perform :: "effect \<Rightarrow> world \<Rightarrow> world" where
  "perform x w = w\<lparr>effects := effects w @ [x]\<rparr>"

section \<open>What the code calls outside the repository\<close>

text \<open>
  The standard library, the ssh library, the file system, the process table and the network
  are not part of the repository. Each call into them is a field of \<open>env\<close> (for the
  known-hosts file, the entries it holds): the functions below are stated for every \<open>env\<close>,
  so for every behaviour of those collaborators.
\<close>

text \<open>
  What \<open>cmd.Run()\<close> leaves behind: whether the context's deadline has passed when it
  returns (\<open>ctx.Err() == context.DeadlineExceeded\<close>), its error, and the two buffers.
\<close>

record RunResult =
  ctx_DeadlineExceeded :: bool
  run_err :: "error option"
  run_stdout :: string
  run_stderr :: string

text \<open>\<open>ssh.PublicKeys(key)\<close> and \<open>ssh.Password(secret)\<close>; a nil \<open>AuthMethod\<close> is \<open>None\<close>.\<close>

datatype AuthMethod = PublicKeys string | Password string

text \<open>
  The far end of an ssh connection: its address; the outcome of the key exchange for the
  host key algorithms the client asks for (the empty list stands for the library's
  defaults), which is the host key the server presents or the error of an exchange that
  finds no algorithm in common; whether it lets a user in with the methods offered, the
  empty list being the method \<open>none\<close> that the library tries first; what opening a session
  and running a command there give back; and whether the run is over before a given
  command timeout fires.
\<close>

record server =
  srv_remote :: string
  srv_hostkey :: "string list \<Rightarrow> error + string"
  srv_auth :: "string \<Rightarrow> AuthMethod list \<Rightarrow> error option"
  srv_NewSession :: "error option"
  srv_Run :: "string \<Rightarrow> error option \<times> string \<times> string"
  srv_in_time :: "string \<Rightarrow> Duration \<Rightarrow> bool"

type_synonym HostKeyCallback = "string \<Rightarrow> string \<Rightarrow> string \<Rightarrow> error option"

record env =
  time_ParseDuration :: "string \<Rightarrow> error + Duration"
  cmd_Run :: "Cmd \<Rightarrow> Duration \<Rightarrow> RunResult"
  os_ReadFile :: "string \<Rightarrow> error + string"
  ssh_ParsePrivateKey :: "string \<Rightarrow> error + string"
  known_hosts_file :: "string \<Rightarrow> error + (string \<times> string) list"
  net_Dial :: "string \<Rightarrow> Duration \<Rightarrow> error + server"

text \<open>
  \<open>ssh.ClientConfig\<close>. The host-key callback of this program logs and counts, so here it
  also takes and returns the \<open>world\<close>.
\<close>

record ClientConfig =
  cc_User :: string
  cc_Auth :: "AuthMethod option list"
  cc_HostKeyCallback :: "string \<Rightarrow> string \<Rightarrow> string \<Rightarrow> world \<Rightarrow> error option \<times> world"
  cc_HostKeyAlgorithms :: "string list"
  cc_Timeout :: Duration

text \<open>\<open>ssh.InsecureIgnoreHostKey()\<close> returns a callback that accepts every key.\<close>

definition ssh_InsecureIgnoreHostKey :: HostKeyCallback where
  "ssh_InsecureIgnoreHostKey = (\<lambda>hostname remote key. None)"

text \<open>
  Modelled from the spec: \<open>knownhosts.New(path)\<close> of the package
  \<^verbatim>\<open>golang.org/x/crypto/ssh/knownhosts\<close>, which the repository imports and does not
  contain. The spec has the known-hosts file as a mapping from a host name to the public
  keys accepted for it, and the verifier built from the file accept a key exactly when it
  matches an entry for the host name; building the verifier fails when the file cannot be
  read or is malformed. \<open>known_hosts_file e path\<close> is what reading and parsing the file at
  \<open>path\<close> gives: that failure, or the entries of the file, each a host name with a key.
  The host name of an entry is compared with the host name the callback receives; the
  remote address plays no part.
\<close>

definition knownhosts_New :: "env \<Rightarrow> string \<Rightarrow> error + HostKeyCallback" where
  "knownhosts_New e path =
     (case known_hosts_file e path of
        Inl err \<Rightarrow> Inl err
      | Inr entries \<Rightarrow>
          Inr (\<lambda>hostname remote key.
                 let accepted = map snd (filter (\<lambda>entry. fst entry = hostname) entries)
                 in if key \<in> set accepted then None
                    else if accepted = [] then Some (ErrorString ''knownhosts: key is unknown'')
                    else Some (ErrorString ''knownhosts: key mismatch'')))"

text \<open>
  \<open>ssh.Dial("tcp", addr, config)\<close>, by the contract of the ssh library: connect within
  \<open>config.Timeout\<close>; exchange keys for \<open>config.HostKeyAlgorithms\<close>, which fails the
  handshake before any host key is looked at when the server has none of the algorithms;
  call \<open>config.HostKeyCallback\<close> with the address dialled, the remote address and the key
  the server presents, and fail the handshake with the callback's error; then authenticate
  as \<open>config.User\<close>. The library takes the entries of \<open>config.Auth\<close> in order and calls a
  method of each: at a nil entry that is a nil dereference, so the call panics unless the
  server has let the user in with the methods before it.
\<close>

fun methods_before_nil :: "AuthMethod option list \<Rightarrow> AuthMethod list" where
  "methods_before_nil [] = []"
| "methods_before_nil (None # auth) = []"
| "methods_before_nil (Some m # auth) = m # methods_before_nil auth"

text \<open>
  The error that \<open>ssh.Dial\<close> returns when the host key callback fails; a panic inside the
  callback stays a panic.
\<close>

definition handshake_failed :: "error \<Rightarrow> error" where
  "handshake_failed err =
     (case err of
        ErrorString m \<Rightarrow> ErrorString (''ssh: handshake failed: '' @ m)
      | Panic v \<Rightarrow> Panic v)"

definition ssh_Dial :: "env \<Rightarrow> string \<Rightarrow> ClientConfig \<Rightarrow> world \<Rightarrow> (error + server) \<times> world" where
  "ssh_Dial e addr config w0 =
     (let w1 = perform (Dial addr) w0 in
      case net_Dial e addr (cc_Timeout config) of
        Inl err \<Rightarrow> (Inl err, w1)
      | Inr srv \<Rightarrow>
          (case srv_hostkey srv (cc_HostKeyAlgorithms config) of
             Inl err \<Rightarrow> (Inl err, w1)
           | Inr key \<Rightarrow>
               (case cc_HostKeyCallback config addr (srv_remote srv) key w1 of
                  (Some err, w2) \<Rightarrow> (Inl (handshake_failed err), w2)
                | (None, w2) \<Rightarrow>
                    (case srv_auth srv (cc_User config) (methods_before_nil (cc_Auth config)) of
                       None \<Rightarrow> (Inr srv, w2)
                     | Some err \<Rightarrow>
                         if None \<in> set (cc_Auth config) then
                           (Inl (Panic ''runtime error: invalid memory address or nil pointer dereference''),
                            w2)
                         else (Inl err, w2)))))"

section \<open>The config resolver: \<^verbatim>\<open>alert.go\<close>, \<open>Name\<close> and \<open>HandleAlert\<close> lines 63 to 105\<close>

definition Name :: "Alert \<Rightarrow> string" where
  "Name a = (case Labels a ''alertname'' of Some val \<Rightarrow> val | None \<Rightarrow> Fingerprint a)"

text \<open>Line 63: the logger that \<open>HandleAlert\<close> stores in \<open>a.logger\<close>.\<close>

definition alert_logger :: "Alert \<Rightarrow> Logger \<Rightarrow> Logger" where
  "alert_logger a logger =
     log_With logger [(''alert'', Str (Fingerprint a)), (''alertname'', Str (Name a))]"

text \<open>
  Lines 64 to 105, statement by statement. The composite literal of lines 65 to 73 names
  seven fields; the other four (\<open>SSHConnectionTimeout\<close>, \<open>SSHHost\<close>, \<open>SSHCommand\<close>,
  \<open>LocalCommand\<close>) get Go's zero value.
\<close>

definition HandleAlert_response ::
    "env \<Rightarrow> Config \<Rightarrow> Alert \<Rightarrow> Logger \<Rightarrow> world \<Rightarrow> AlertResponse \<times> world" where
  "HandleAlert_response e c a logger w0 =
     (let a_logger = alert_logger a logger;
          w1 = Log LevelDebug a_logger [(''msg'', Str ''Handling alert'')] w0;
          r0 = \<lparr>User = cfg_User c,
                SSHKey = cfg_SSHKey c,
                SSHPassword = cfg_SSHPassword c,
                SSHKnownHosts = cfg_SSHKnownHosts c,
                SSHHostKeyAlgorithms = cfg_SSHHostKeyAlgorithms c,
                SSHConnectionTimeout = 0,
                SSHCommandTimeout = cfg_SSHCommandTimeout c,
                SSHHost = '''',
                SSHCommand = '''',
                LocalCommand = '''',
                LocalCommandTimeout = cfg_LocalCommandTimeout c\<rparr>;
          r1 = (case Annotations a userAnnotation of
                  Some val \<Rightarrow> r0\<lparr>User := val\<rparr> | None \<Rightarrow> r0);
          r2 = (case Annotations a sshKeyAnnotation of
                  Some val \<Rightarrow> r1\<lparr>SSHKey := val\<rparr> | None \<Rightarrow> r1);
          r3 = (case Annotations a sshHostAnnotation of
                  Some val \<Rightarrow> r2\<lparr>SSHHost := val\<rparr> | None \<Rightarrow> r2);
          r4 = (case Annotations a sshCommandAnnotation of
                  Some val \<Rightarrow> r3\<lparr>SSHCommand := val\<rparr> | None \<Rightarrow> r3);
          (r5, w2) = (case Annotations a sshCommandTimeout of
                  Some val \<Rightarrow>
                    (case time_ParseDuration e val of
                       Inr timeout \<Rightarrow> (r4\<lparr>SSHCommandTimeout := timeout\<rparr>, w1)
                     | Inl err \<Rightarrow>
                         (r4, Log LevelError a_logger
                                [(''msg'', Str ''Unable to parse SSH command timeout''),
                                 (''err'', ErrVal err), (''timeout'', Str val)] w1))
                | None \<Rightarrow> (r4, w1));
          r6 = (case Annotations a localCommandAnnotation of
                  Some val \<Rightarrow> r5\<lparr>LocalCommand := val\<rparr> | None \<Rightarrow> r5);
          (r7, w3) = (case Annotations a localCommandTimeout of
                  Some val \<Rightarrow>
                    (case time_ParseDuration e val of
                       Inr timeout \<Rightarrow> (r6\<lparr>LocalCommandTimeout := timeout\<rparr>, w2)
                     | Inl err \<Rightarrow>
                         (r6, Log LevelError a_logger
                                [(''msg'', Str ''Unable to parse local command timeout''),
                                 (''err'', ErrVal err), (''timeout'', Str val)] w2))
                | None \<Rightarrow> (r6, w2))
      in (r7, w3))"

section \<open>The local executor: \<^verbatim>\<open>commands.go\<close> lines 34 to 59\<close>

text \<open>
  \<open>execCommand\<close> is \<open>exec.CommandContext\<close>: the command it builds has the given name as
  its path and as its first argument, followed by the arguments given. The context only
  carries the deadline, which \<open>cmd_Run\<close> receives.
\<close>

definition execCommand :: "string \<Rightarrow> string list \<Rightarrow> Cmd" where
  "execCommand name arg = \<lparr>Path = name, Args = name # arg\<rparr>"

definition runLocalCommand :: "env \<Rightarrow> Logger \<Rightarrow> AlertResponse \<Rightarrow> world \<Rightarrow> error option \<times> world" where
  "runLocalCommand e logger r w0 =
     (let w1 = Log LevelInfo logger [(''msg'', Str ''Running local command'')] w0;
          errorsTotalLabels = ''local'';
          cmd = execCommand (LocalCommand r) [];
          res = cmd_Run e cmd (LocalCommandTimeout r);
          w2 = perform (Spawn cmd (LocalCommandTimeout r)) w1
      in if ctx_DeadlineExceeded res then
           (Some (ErrorString (''Local command timed out: '' @ LocalCommand r)),
            Inc errorsTotalLabels
              (Log LevelError logger [(''msg'', Str ''Local command timed out'')] w2))
         else
           (case run_err res of
              Some err \<Rightarrow>
                (Some err,
                 Inc errorsTotalLabels
                   (Log LevelError logger
                      [(''msg'', Str ''Error executing command''), (''err'', ErrVal err)] w2))
            | None \<Rightarrow>
                (None,
                 Log LevelInfo logger
                   [(''msg'', Str ''Local command completed''),
                    (''out'', Str (run_stdout res)), (''err'', Str (run_stderr res))] w2)))"

section \<open>The SSH executor: \<^verbatim>\<open>commands.go\<close> lines 61 to 166\<close>

definition getPrivateKeyAuth :: "env \<Rightarrow> string \<Rightarrow> world \<Rightarrow> (error + AuthMethod) \<times> world" where
  "getPrivateKeyAuth e privatekey w0 =
     (let w1 = perform (ReadFile privatekey) w0 in
      case os_ReadFile e privatekey of
        Inl err \<Rightarrow> (Inl err, w1)
      | Inr buffer \<Rightarrow>
          (case ssh_ParsePrivateKey e buffer of
             Inl err \<Rightarrow> (Inl err, w1)
           | Inr key \<Rightarrow> (Inr (PublicKeys key), w1)))"

definition hostKeyCallback ::
    "env \<Rightarrow> string \<Rightarrow> Logger \<Rightarrow> string \<Rightarrow> string \<Rightarrow> string \<Rightarrow> world \<Rightarrow> error option \<times> world" where
  "hostKeyCallback e knownHosts logger = (\<lambda>hostname remote key w0.
     if knownHosts \<noteq> '''' then
       (let publicKey = Base64 key;
            w1 = Log LevelDebug logger
                   [(''msg'', Str ''Verify SSH known hosts''), (''hostname'', Str hostname),
                    (''remote'', Str remote), (''key'', publicKey)] w0;
            w2 = perform (KnownHostsNew knownHosts) w1
        in case knownhosts_New e knownHosts of
             Inl err \<Rightarrow>
               (Some err,
                Inc ''ssh''
                  (Log LevelError logger
                     [(''msg'', Str ''Error creating hostkeycallback function''),
                      (''err'', ErrVal err)] w2))
           | Inr callback \<Rightarrow> (callback hostname remote key, w2))
     else (ssh_InsecureIgnoreHostKey hostname remote key, w0))"

text \<open>
  The worker of lines 94 to 109, run to its end over a connection: the values it leaves
  in \<open>sessionerror\<close>, \<open>commanderror\<close> and the two buffers, and whether it sends on \<open>c1\<close>.
  It returns without sending when opening the session or running the command fails;
  otherwise it sends if it still reads \<open>timeout\<close> as false, that is if it gets there
  before the timer of line 113 fires.
\<close>

record worker =
  sessionerror :: "error option"
  commanderror :: "error option"
  stdout :: string
  stderr :: string
  sent :: bool

definition ssh_worker :: "server \<Rightarrow> AlertResponse \<Rightarrow> worker" where
  "ssh_worker conn r =
     (case srv_NewSession conn of
        Some err \<Rightarrow>
          \<lparr>sessionerror = Some err, commanderror = None, stdout = '''', stderr = '''',
           sent = False\<rparr>
      | None \<Rightarrow>
          (case srv_Run conn (SSHCommand r) of
             (Some err, out, errout) \<Rightarrow>
               \<lparr>sessionerror = None, commanderror = Some err, stdout = out, stderr = errout,
                sent = False\<rparr>
           | (None, out, errout) \<Rightarrow>
               \<lparr>sessionerror = None, commanderror = None, stdout = out, stderr = errout,
                sent = srv_in_time conn (SSHCommand r) (SSHCommandTimeout r)\<rparr>))"

text \<open>Lines 70 to 78: the choice of the authentication method.\<close>

definition runSSHCommand_auth ::
    "env \<Rightarrow> AlertResponse \<Rightarrow> world \<Rightarrow> (error + AuthMethod option) \<times> world" where
  "runSSHCommand_auth e r w =
     (if SSHKey r \<noteq> '''' then
        (case getPrivateKeyAuth e (SSHKey r) w of
           (Inl err, w') \<Rightarrow> (Inl err, w')
         | (Inr auth, w') \<Rightarrow> (Inr (Some auth), w'))
      else if SSHPassword r \<noteq> '''' then (Inr (Some (Password (SSHPassword r))), w)
      else (Inr None, w))"

text \<open>
  Lines 92 to 133, over an established connection. The \<open>select\<close> of lines 111 to 119
  takes the first case when the worker has sent on \<open>c1\<close> and the timer case otherwise. A
  worker that fails to open the session or to run the command returns without sending, so
  the function then waits for the timer and returns the timeout error; the tests of lines
  122 and 127 follow the source, and find \<open>nil\<close> whenever they are reached. The deferred
  \<open>connection.Close()\<close> is the \<open>ConnClose\<close> at each return. This is a reading by the
  result of a function that returns: what the worker does after the timer case has been
  taken, a send on the closed channel included, is not part of it; the next section takes
  the same lines step by step.
\<close>

definition runSSHCommand_select ::
    "Logger \<Rightarrow> AlertResponse \<Rightarrow> server \<Rightarrow> world \<Rightarrow> error option \<times> world" where
  "runSSHCommand_select logger r connection w =
     (let errorsTotalLabels = ''ssh'';
          wk = ssh_worker connection r
      in if \<not> sent wk then
           (Some (ErrorString (''Timeout executing SSH command: '' @ SSHCommand r)),
            perform (ConnClose (SSHHost r))
              (Inc errorsTotalLabels
                 (Log LevelError logger [(''msg'', Str ''Timeout executing SSH command'')] w)))
         else
           (case sessionerror wk of
              Some err \<Rightarrow>
                (Some err,
                 perform (ConnClose (SSHHost r))
                   (Inc errorsTotalLabels
                      (Log LevelError logger
                         [(''msg'', Str ''Failed to establish SSH session''),
                          (''err'', ErrVal err)] w)))
            | None \<Rightarrow>
                (case commanderror wk of
                   Some err \<Rightarrow>
                     (Some err,
                      perform (ConnClose (SSHHost r))
                        (Inc errorsTotalLabels
                           (Log LevelError logger
                              [(''msg'', Str ''Failed to run SSH command''),
                               (''err'', ErrVal err)] w)))
                 | None \<Rightarrow>
                     (None,
                      perform (ConnClose (SSHHost r))
                        (Log LevelInfo logger
                           [(''msg'', Str ''SSH command completed''),
                            (''out'', Str (stdout wk)), (''err'', Str (stderr wk))] w)))))"

text \<open>
  \<open>runSSHCommand\<close>, lines 61 to 134. When \<open>ssh.Dial\<close> panics, lines 87 to 90 are not run:
  the function ends there with the panic, and nothing is logged or counted for it.
\<close>

definition runSSHCommand :: "env \<Rightarrow> Logger \<Rightarrow> AlertResponse \<Rightarrow> world \<Rightarrow> error option \<times> world" where
  "runSSHCommand e logger r w0 =
     (let w1 = Log LevelInfo logger [(''msg'', Str ''Running SSH command'')] w0;
          errorsTotalLabels = ''ssh''
      in case runSSHCommand_auth e r w1 of
           (Inl err, w2) \<Rightarrow>
             (Some err,
              Log LevelError logger
                [(''msg'', Str ''Error setting up private key auth''), (''err'', ErrVal err)] w2)
         | (Inr auth, w2) \<Rightarrow>
             (let sshConfig =
                    \<lparr>cc_User = User r,
                     cc_Auth = [auth],
                     cc_HostKeyCallback = hostKeyCallback e (SSHKnownHosts r) logger,
                     cc_HostKeyAlgorithms = SSHHostKeyAlgorithms r,
                     cc_Timeout = SSHConnectionTimeout r\<rparr>
              in case ssh_Dial e (SSHHost r) sshConfig w2 of
                   (Inl err, w3) \<Rightarrow>
                     if is_panic (Some err) then (Some err, w3)
                     else
                       (Some err,
                        Inc errorsTotalLabels
                          (Log LevelError logger
                             [(''msg'', Str ''Failed to establish SSH connection''),
                              (''err'', ErrVal err)] w3))
                 | (Inr connection, w3) \<Rightarrow> runSSHCommand_select logger r connection w3))"

section \<open>The worker and the timer as two threads: \<^verbatim>\<open>commands.go\<close> lines 94 to 133\<close>

text \<open>
  \<open>runSSHCommand_select\<close> reads the race of lines 94 to 119 by its result. Here the same
  lines are taken one statement at a time, for every order in which the function and the
  goroutine it starts can take their steps. Each thread has a program point named after the
  line it is about to execute; a step of either thread is atomic. The state holds the
  variables the two threads share (\<open>timeout\<close>, \<open>sessionerror\<close>, \<open>commanderror\<close>, the two
  buffers), the channel \<open>c1\<close> (capacity one: whether a value sits in it, and whether it is
  closed), what the function has returned, if it has, and the list of what has happened.
  The log lines and the counter of lines 116 to 117, 123 to 124 and 128 to 129 are those
  of \<open>runSSHCommand_select\<close> and are left out here.
\<close>

datatype main_pc = M_select | M_114 | M_115 | M_116 | M_120 | M_122 | M_returned

datatype worker_pc = W_96 | W_102 | W_106 | W_107 | W_done | W_panic

datatype event =
    Worker_assigns_sessionerror "error option"
  | Worker_assigns_commanderror "error option"
  | Worker_sends
  | Worker_panics
  | Main_returns "error option"

record race =
  main_at :: main_pc
  worker_at :: worker_pc
  timeout_flag :: bool
  vars :: worker
  c1_full :: bool
  c1_closed :: bool
  returned :: "error option option"
  happened :: "event list"

text \<open>
  Who moves next: the function at its current line (at the \<open>select\<close>, by the case
  \<open>\<leftarrow>c1\<close>), the timer of \<open>time.After\<close> (the other case of the \<open>select\<close>), or the worker.
\<close>

datatype actor = Main | Timer | Worker

text \<open>The state when the function reaches the \<open>select\<close> of line 111.\<close>

definition race0 :: race where
  "race0 =
     \<lparr>main_at = M_select, worker_at = W_96, timeout_flag = False,
      vars = \<lparr>sessionerror = None, commanderror = None, stdout = '''', stderr = '''',
              sent = False\<rparr>,
      c1_full = False, c1_closed = False, returned = None, happened = []\<rparr>"

definition timeout_error :: "AlertResponse \<Rightarrow> error" where
  "timeout_error r = ErrorString (''Timeout executing SSH command: '' @ SSHCommand r)"

text \<open>The worker's next statement (lines 96 to 107).\<close>

definition worker_step :: "server \<Rightarrow> AlertResponse \<Rightarrow> race \<Rightarrow> race option" where
  "worker_step conn r s =
     (case worker_at s of
        W_96 \<Rightarrow>
          (let err = srv_NewSession conn in
           Some (s\<lparr>vars := (vars s)\<lparr>sessionerror := err\<rparr>,
                   worker_at := (if err \<noteq> None then W_done else W_102),
                   happened := happened s @ [Worker_assigns_sessionerror err]\<rparr>))
      | W_102 \<Rightarrow>
          (case srv_Run conn (SSHCommand r) of
             (err, out, errout) \<Rightarrow>
               Some (s\<lparr>vars := (vars s)\<lparr>commanderror := err, stdout := out, stderr := errout\<rparr>,
                       worker_at := (if err \<noteq> None then W_done else W_106),
                       happened := happened s @ [Worker_assigns_commanderror err]\<rparr>))
      | W_106 \<Rightarrow> Some (s\<lparr>worker_at := (if \<not> timeout_flag s then W_107 else W_done)\<rparr>)
      | W_107 \<Rightarrow>
          (if c1_closed s then
             Some (s\<lparr>worker_at := W_panic, happened := happened s @ [Worker_panics]\<rparr>)
           else
             Some (s\<lparr>vars := (vars s)\<lparr>sent := True\<rparr>, c1_full := True, worker_at := W_done,
                     happened := happened s @ [Worker_sends]\<rparr>))
      | W_done \<Rightarrow> None
      | W_panic \<Rightarrow> None)"

text \<open>The function's next statement (lines 111 to 133); at the \<open>select\<close>, the case \<open>\<leftarrow>c1\<close>.\<close>

definition main_step :: "AlertResponse \<Rightarrow> race \<Rightarrow> race option" where
  "main_step r s =
     (case main_at s of
        M_select \<Rightarrow> (if c1_full s then Some (s\<lparr>c1_full := False, main_at := M_120\<rparr>) else None)
      | M_114 \<Rightarrow> Some (s\<lparr>timeout_flag := True, main_at := M_115\<rparr>)
      | M_115 \<Rightarrow> Some (s\<lparr>c1_closed := True, main_at := M_116\<rparr>)
      | M_116 \<Rightarrow>
          Some (s\<lparr>returned := Some (Some (timeout_error r)), main_at := M_returned,
                  happened := happened s @ [Main_returns (Some (timeout_error r))]\<rparr>)
      | M_120 \<Rightarrow> Some (s\<lparr>c1_closed := True, main_at := M_122\<rparr>)
      | M_122 \<Rightarrow>
          (let out = (case sessionerror (vars s) of
                        Some err \<Rightarrow> Some err
                      | None \<Rightarrow> commanderror (vars s))
           in Some (s\<lparr>returned := Some out, main_at := M_returned,
                      happened := happened s @ [Main_returns out]\<rparr>))
      | M_returned \<Rightarrow> None)"

text \<open>
  One step of the actor named. The timer can fire whenever the function waits at the
  \<open>select\<close>. A panic of the worker ends the process: nobody moves after it.
\<close>

definition race_step :: "server \<Rightarrow> AlertResponse \<Rightarrow> actor \<Rightarrow> race \<Rightarrow> race option" where
  "race_step conn r a s =
     (if worker_at s = W_panic then None
      else case a of
        Main \<Rightarrow> main_step r s
      | Timer \<Rightarrow> (if main_at s = M_select then Some (s\<lparr>main_at := M_114\<rparr>) else None)
      | Worker \<Rightarrow> worker_step conn r s)"

text \<open>A schedule is a list of actors; an actor that cannot move is passed over.\<close>

fun race_run :: "server \<Rightarrow> AlertResponse \<Rightarrow> actor list \<Rightarrow> race \<Rightarrow> race" where
  "race_run conn r [] s = s"
| "race_run conn r (a # sched) s =
     (case race_step conn r a s of
        None \<Rightarrow> race_run conn r sched s
      | Some s' \<Rightarrow> race_run conn r sched s')"

text \<open>What the function has returned is the timeout error.\<close>

definition returned_timeout :: "AlertResponse \<Rightarrow> race \<Rightarrow> bool" where
  "returned_timeout r s = (returned s = Some (Some (timeout_error r)))"

text \<open>
  The timer case has been taken: the function is in lines 114 to 118, or it has returned
  the timeout error.
\<close>

definition after_timer :: "AlertResponse \<Rightarrow> race \<Rightarrow> bool" where
  "after_timer r s =
     ((main_at s = M_114 \<or> main_at s = M_115 \<or> main_at s = M_116) \<and> returned s = None \<or>
      returned_timeout r s)"

text \<open>The returns of the function in a list of events.\<close>

fun returns_of :: "event list \<Rightarrow> error option list" where
  "returns_of [] = []"
| "returns_of (Main_returns out # evs) = out # returns_of evs"
| "returns_of (ev # evs) = returns_of evs"

subsection \<open>What holds in every state of the race\<close>

text \<open>
  What holds in every state of the race: the function has returned exactly when it is at
  its end, the list of events holds its return and no other, \<open>c1\<close> is open while the function
  waits at the \<open>select\<close>, and the worker has panicked only on a closed \<open>c1\<close>.
\<close>

definition race_inv :: "race \<Rightarrow> bool" where
  "race_inv s =
     ((returned s = None) = (main_at s \<noteq> M_returned) \<and>
      returns_of (happened s) = (case returned s of None \<Rightarrow> [] | Some out \<Rightarrow> [out]) \<and>
      (main_at s = M_select \<longrightarrow> \<not> c1_closed s) \<and>
      (worker_at s = W_panic \<longrightarrow> c1_closed s))"

text \<open>Opening the session and running the command both end without error.\<close>

definition ok_run :: "server \<Rightarrow> AlertResponse \<Rightarrow> bool" where
  "ok_run conn r = (srv_NewSession conn = None \<and> fst (srv_Run conn (SSHCommand r)) = None)"

text \<open>
  What the program points say about the shared variables: once the worker is past line 96
  the session is open, once it is past line 102 the command has run without error; a value
  in \<open>c1\<close>, or the function past the first case of the \<open>select\<close>, means the worker has
  ended after both; and the function returns the timeout error or, after such a run,
  \<open>nil\<close>.
\<close>

definition race_facts :: "server \<Rightarrow> AlertResponse \<Rightarrow> race \<Rightarrow> bool" where
  "race_facts conn r s =
     ((main_at s = M_120 \<or> main_at s = M_122 \<or> c1_full s \<longrightarrow>
         sessionerror (vars s) = None \<and> commanderror (vars s) = None \<and>
         worker_at s = W_done \<and> ok_run conn r) \<and>
      (worker_at s = W_106 \<or> worker_at s = W_107 \<longrightarrow>
         sessionerror (vars s) = None \<and> commanderror (vars s) = None \<and> ok_run conn r) \<and>
      (worker_at s = W_102 \<longrightarrow> sessionerror (vars s) = None \<and> srv_NewSession conn = None) \<and>
      (returned s = None \<or> returned s = Some (Some (timeout_error r)) \<or>
       returned s = Some None \<and> ok_run conn r))"

section \<open>The dispatcher: \<^verbatim>\<open>alert.go\<close> lines 107 to 126\<close>

text \<open>The loggers of lines 110 and 118.\<close>

definition localLogger :: "Logger \<Rightarrow> AlertResponse \<Rightarrow> Logger" where
  "localLogger a_logger r =
     log_With a_logger [(''type'', Str ''local''), (''command'', Str (LocalCommand r))]"

definition sshLogger :: "Logger \<Rightarrow> AlertResponse \<Rightarrow> Logger" where
  "sshLogger a_logger r =
     log_With a_logger
       [(''type'', Str ''ssh''), (''user'', Str (User r)), (''ssh_key'', Str (SSHKey r)),
        (''ssh_host'', Str (SSHHost r)), (''command'', Str (SSHCommand r))]"

text \<open>
  \<open>err\<close> is the one variable of line 107: the local path assigns it at line 111 and the
  SSH path assigns it again at line 120. A panic of \<open>runSSHCommand\<close> passes through
  \<open>HandleAlert\<close>: lines 121 to 126 are not run.
\<close>

definition HandleAlert_dispatch ::
    "env \<Rightarrow> Logger \<Rightarrow> AlertResponse \<Rightarrow> world \<Rightarrow> error option \<times> world" where
  "HandleAlert_dispatch e a_logger r w0 =
     (let err0 = None;
          (err1, w1) =
            (if LocalCommand r \<noteq> '''' then
               (let (err, w) = runLocalCommand e (localLogger a_logger r) r w0;
                    w' = (case err of
                            Some x \<Rightarrow>
                              Log LevelError (localLogger a_logger r)
                                [(''msg'', Str ''Failed to run local command''), (''err'', ErrVal x)] w
                          | None \<Rightarrow> w)
                in (err, Log LevelInfo (localLogger a_logger r)
                           [(''msg'', Str ''Command completed''), (''duration'', Elapsed)] w'))
             else (err0, w0));
          (err2, w2) =
            (if SSHCommand r \<noteq> '''' then
               (let (err, w) = runSSHCommand e (sshLogger a_logger r) r w1;
                    w' = (case err of
                            Some x \<Rightarrow>
                              Log LevelError (sshLogger a_logger r)
                                [(''msg'', Str ''Failed to run SSH command''), (''err'', ErrVal x)] w
                          | None \<Rightarrow> w)
                in if is_panic err then (err, w)
                   else (err, Log LevelInfo (sshLogger a_logger r)
                                [(''msg'', Str ''Command completed''), (''duration'', Elapsed)] w'))
             else (err1, w1))
      in (err2, w2))"

text \<open>\<open>HandleAlert\<close>: the error it returns, \<open>a.Response\<close> as it leaves it, and the world.\<close>

definition HandleAlert ::
    "env \<Rightarrow> Config \<Rightarrow> Alert \<Rightarrow> Logger \<Rightarrow> world \<Rightarrow> error option \<times> AlertResponse \<times> world" where
  "HandleAlert e c a logger w0 =
     (let (r, w1) = HandleAlert_response e c a logger w0;
          (err, w2) = HandleAlert_dispatch e (alert_logger a logger) r w1
      in (err, r, w2))"

section \<open>Concrete inputs\<close>

text \<open>
  One configuration, one machine and one network, used to run the functions above on
  concrete alerts. The machine has a shell \<open>sh\<close> and the programs \<open>echo\<close> and \<open>false\<close> on its
  path, one private key file and one known-hosts file; the network has two ssh servers,
  \<open>db1:22\<close>, whose key the known-hosts file lists, and \<open>db2:22\<close>, whose key it does not.
  \<open>example_ParseDuration\<close> agrees with \<open>time.ParseDuration\<close> on the strings it is applied
  to below.
\<close>

definition world0 :: world where
  "world0 = \<lparr>CommandErrorsTotal = (\<lambda>ty. 0), logged = [], effects = []\<rparr>"

definition example_config :: Config where
  "example_config =
     \<lparr>cfg_User = ''responder'',
      cfg_SSHKey = '''',
      cfg_SSHPassword = ''secret'',
      cfg_SSHKnownHosts = '''',
      cfg_SSHHostKeyAlgorithms = [],
      cfg_SSHConnectionTimeout = 10000000000,
      cfg_SSHCommandTimeout = 30000000000,
      cfg_LocalCommandTimeout = 30000000000\<rparr>"

text \<open>A string between double quotes, as Go's \<open>%q\<close> prints a plain one.\<close>

definition quoted :: "string \<Rightarrow> string" where
  "quoted s = CHR 0x22 # s @ [CHR 0x22]"

definition example_ParseDuration :: "string \<Rightarrow> error + Duration" where
  "example_ParseDuration s =
     (if s = ''1s'' then Inr 1000000000
      else if s = ''2m'' then Inr 120000000000
      else Inl (ErrorString (''time: invalid duration '' @ quoted s)))"

text \<open>Splitting a shell script at its spaces, for the one-line scripts used here.\<close>

fun split_words :: "string \<Rightarrow> string \<Rightarrow> string list" where
  "split_words acc [] = (if acc = [] then [] else [acc])"
| "split_words acc (ch # rest) =
     (if ch = CHR '' '' then (if acc = [] then split_words [] rest else acc # split_words [] rest)
      else split_words (acc @ [ch]) rest)"

text \<open>The programs of the example machine, by their argument vector.\<close>

definition example_exec :: "string list \<Rightarrow> RunResult" where
  "example_exec argv =
     (case argv of
        [] \<Rightarrow>
          \<lparr>ctx_DeadlineExceeded = False, run_err = None, run_stdout = '''', run_stderr = ''''\<rparr>
      | name # arg \<Rightarrow>
          if name = ''echo'' then
            \<lparr>ctx_DeadlineExceeded = False, run_err = None,
             run_stdout = concat (map (\<lambda>x. x @ '' '') (butlast arg)) @
                          (if arg = [] then [] else last arg) @ [CHR 0x0A],
             run_stderr = ''''\<rparr>
          else if name = ''false'' then
            \<lparr>ctx_DeadlineExceeded = False, run_err = Some (ErrorString ''exit status 1''),
             run_stdout = '''', run_stderr = ''''\<rparr>
          else
            \<lparr>ctx_DeadlineExceeded = False,
             run_err = Some (ErrorString
               (''exec: '' @ quoted name @ '': executable file not found in $PATH'')),
             run_stdout = '''', run_stderr = ''''\<rparr>)"

text \<open>
  Running a command on the example machine: \<open>sh -c script\<close> runs the words of the
  script; any other path is looked up as a program of that name.
\<close>

definition example_Run :: "Cmd \<Rightarrow> Duration \<Rightarrow> RunResult" where
  "example_Run cmd d =
     (if Path cmd = ''sh'' then
        (case Args cmd of
           [a0, flag, script] \<Rightarrow>
             if flag = ''-c'' then example_exec (split_words [] script) else example_exec []
         | _ \<Rightarrow> example_exec [])
      else example_exec (Path cmd # tl (Args cmd)))"

definition example_ReadFile :: "string \<Rightarrow> error + string" where
  "example_ReadFile path =
     (if path = ''/etc/responder/id_ed25519'' then Inr ''PRIVATE KEY''
      else Inl (ErrorString (''open '' @ path @ '': no such file or directory'')))"

definition example_ParsePrivateKey :: "string \<Rightarrow> error + string" where
  "example_ParsePrivateKey buffer =
     (if buffer = ''PRIVATE KEY'' then Inr ''signer''
      else Inl (ErrorString ''ssh: no key found''))"

text \<open>The one known-hosts file of the example machine, with an entry for each of two hosts.\<close>

definition example_known_hosts :: "string \<Rightarrow> error + (string \<times> string) list" where
  "example_known_hosts path =
     (if path = ''/etc/responder/known_hosts'' then
        Inr [(''web1:22'', ''HOSTKEY-WEB1''), (''db1:22'', ''HOSTKEY-DB1'')]
      else Inl (ErrorString (''open '' @ path @ '': no such file or directory'')))"

text \<open>Words between square brackets, as Go's \<open>%v\<close> prints a slice of strings.\<close>

definition bracketed :: "string list \<Rightarrow> string" where
  "bracketed ws =
     ''['' @ concat (map (\<lambda>x. x @ '' '') (butlast ws)) @ (if ws = [] then [] else last ws) @ '']''"

text \<open>
  The servers of the example network have one host key, of type \<open>ssh-ed25519\<close>, refuse the
  method \<open>none\<close> and let the user \<open>responder\<close> in with the password \<open>secret\<close>.
\<close>

definition example_hostkey :: "string \<Rightarrow> string list \<Rightarrow> error + string" where
  "example_hostkey key algos =
     (if algos = [] \<or> ''ssh-ed25519'' \<in> set algos then Inr key
      else Inl (ErrorString
        (''ssh: handshake failed: ssh: no common algorithm for host key; client offered: '' @
         bracketed algos @ '', server offered: [ssh-ed25519]'')))"

definition example_auth :: "string \<Rightarrow> AuthMethod list \<Rightarrow> error option" where
  "example_auth user methods =
     (if user = ''responder'' \<and> Password ''secret'' \<in> set methods then None
      else Some (ErrorString
        (''ssh: handshake failed: ssh: unable to authenticate, attempted methods '' @
         bracketed (''none'' # map (\<lambda>m. case m of PublicKeys k \<Rightarrow> ''publickey''
                                              | Password p \<Rightarrow> ''password'') methods) @
         '', no supported methods remain'')))"

definition example_server :: server where
  "example_server =
     \<lparr>srv_remote = ''10.0.0.5:22'',
      srv_hostkey = example_hostkey ''HOSTKEY-DB1'',
      srv_auth = example_auth,
      srv_NewSession = None,
      srv_Run = (\<lambda>cmd. (None, ''ok'', '''')),
      srv_in_time = (\<lambda>cmd d. True)\<rparr>"

definition example_server2 :: server where
  "example_server2 =
     example_server\<lparr>srv_remote := ''10.0.0.6:22'', srv_hostkey := example_hostkey ''HOSTKEY-DB2''\<rparr>"

definition example_net :: "string \<Rightarrow> Duration \<Rightarrow> error + server" where
  "example_net addr d =
     (if addr = ''db1:22'' then Inr example_server
      else if addr = ''db2:22'' then Inr example_server2
      else Inl (ErrorString (''dial tcp '' @ addr @ '': connect: connection refused'')))"

definition example_env :: env where
  "example_env =
     \<lparr>time_ParseDuration = example_ParseDuration,
      cmd_Run = example_Run,
      os_ReadFile = example_ReadFile,
      ssh_ParsePrivateKey = example_ParsePrivateKey,
      known_hosts_file = example_known_hosts,
      net_Dial = example_net\<rparr>"

text \<open>An alert with no annotation at all.\<close>

definition plain_alert :: Alert where
  "plain_alert =
     \<lparr>Labels = [''alertname'' \<mapsto> ''DiskFull''], Annotations = Map.empty,
      Fingerprint = ''a1b2c3''\<rparr>"

text \<open>An action spec as \<open>HandleAlert\<close> builds it from \<open>example_config\<close>, with no command.\<close>

definition idle_response :: AlertResponse where
  "idle_response =
     \<lparr>User = ''responder'', SSHKey = '''', SSHPassword = ''secret'', SSHKnownHosts = '''',
      SSHHostKeyAlgorithms = [], SSHConnectionTimeout = 0, SSHCommandTimeout = 30000000000,
      SSHHost = '''', SSHCommand = '''', LocalCommand = '''',
      LocalCommandTimeout = 30000000000\<rparr>"

text \<open>The alert of the end-to-end scenario: one annotation, the local command \<open>echo hi\<close>.\<close>

definition echo_alert :: Alert where
  "echo_alert =
     \<lparr>Labels = [''alertname'' \<mapsto> ''DiskFull''],
      Annotations = [''command_responder_local_command'' \<mapsto> ''echo hi''],
      Fingerprint = ''a1b2c3''\<rparr>"

text \<open>An alert whose one annotation is the local command \<open>echo\<close>, a program that exists.\<close>

definition echo_only_alert :: Alert where
  "echo_only_alert =
     \<lparr>Labels = [''alertname'' \<mapsto> ''DiskFull''],
      Annotations = [''command_responder_local_command'' \<mapsto> ''echo''],
      Fingerprint = ''a1b2c3''\<rparr>"


text \<open>Action specs: a key file that does not exist; a known-hosts file that does not exist;
  a local command that fails next to an SSH command that succeeds.\<close>

definition missing_key_response :: AlertResponse where
  "missing_key_response =
     idle_response\<lparr>SSHKey := ''/missing/id_ed25519'', SSHHost := ''db1:22'',
                   SSHCommand := ''uptime''\<rparr>"

definition missing_known_hosts_response :: AlertResponse where
  "missing_known_hosts_response =
     idle_response\<lparr>SSHKnownHosts := ''/missing/known_hosts'', SSHHost := ''db1:22'',
                   SSHCommand := ''uptime''\<rparr>"

definition both_response :: AlertResponse where
  "both_response =
     idle_response\<lparr>LocalCommand := ''false'', SSHHost := ''db1:22'', SSHCommand := ''uptime''\<rparr>"

text \<open>
  Two more action specs: neither a key nor a password; and host key algorithms of which
  the server has none, next to a known-hosts file that does not exist.
\<close>

definition no_auth_response :: AlertResponse where
  "no_auth_response =
     idle_response\<lparr>SSHPassword := '''', SSHHost := ''db1:22'', SSHCommand := ''uptime''\<rparr>"

definition rsa_only_response :: AlertResponse where
  "rsa_only_response = missing_known_hosts_response\<lparr>SSHHostKeyAlgorithms := [''ssh-rsa'']\<rparr>"

text \<open>
  A server whose command is still running when any timeout fires; the run then ends with the
  error it gets when the connection is closed under it.
\<close>

definition slow_server :: server where
  "slow_server =
     example_server
       \<lparr>srv_Run := (\<lambda>cmd.
          (Some (ErrorString ''wait: remote command exited without exit status or exit signal''),
           '''', '''')),
        srv_in_time := (\<lambda>cmd d. False)\<rparr>"

definition uptime_response :: AlertResponse where
  "uptime_response = idle_response\<lparr>SSHHost := ''db1:22'', SSHCommand := ''uptime''\<rparr>"

text \<open>The log lines of \<open>w'\<close> that \<open>w\<close> did not have yet.\<close>

definition new_log :: "world \<Rightarrow> world \<Rightarrow> (level \<times> keyvals) list" where
  "new_log w w' = drop (length (logged w)) (logged w')"

text \<open>
  A key matches an entry for a host name in the known-hosts file at a path: the file can be
  read, and one of its entries is that host name with that key.
\<close>

definition known_hosts_match :: "env \<Rightarrow> string \<Rightarrow> string \<Rightarrow> string \<Rightarrow> bool" where
  "known_hosts_match e path hostname key =
     (case known_hosts_file e path of
        Inl err \<Rightarrow> False
      | Inr entries \<Rightarrow> (hostname, key) \<in> set entries)"

section \<open>Properties\<close>

lemmas annotation_keys =
  userAnnotation_def sshKeyAnnotation_def sshHostAnnotation_def sshCommandAnnotation_def
  sshCommandTimeout_def localCommandAnnotation_def localCommandTimeout_def

lemmas example_defs = example_env_def example_config_def example_ParseDuration_def
  example_Run_def example_exec_def example_ReadFile_def example_ParsePrivateKey_def
  example_known_hosts_def example_hostkey_def example_auth_def example_server_def
  example_server2_def example_net_def world0_def idle_response_def

lemmas run_defs = runLocalCommand_def runSSHCommand_def runSSHCommand_auth_def
  runSSHCommand_select_def getPrivateKeyAuth_def hostKeyCallback_def knownhosts_New_def
  ssh_worker_def ssh_Dial_def handshake_failed_def ssh_InsecureIgnoreHostKey_def execCommand_def
  localLogger_def sshLogger_def Log_def Inc_def perform_def log_With_def Let_def

subsection \<open>What the resolver computes, field by field\<close>

text \<open>
  The action spec and the world that \<open>HandleAlert\<close> has at line 105, in closed form. Five
  fields take their annotation as it stands (\<open>User\<close> and \<open>SSHKey\<close> over their default;
  \<open>SSHHost\<close>, \<open>SSHCommand\<close> and \<open>LocalCommand\<close> over the empty string), two take an
  annotation that parses as a duration, three are the defaults, and \<open>SSHConnectionTimeout\<close>
  is zero. The world gains log lines and nothing else.
\<close>

lemma HandleAlert_response_eq:
  fixes e c a logger w
  defines "lg \<equiv> alert_logger a logger"
  shows "HandleAlert_response e c a logger w =
     (\<lparr>User = (case Annotations a userAnnotation of Some val \<Rightarrow> val | None \<Rightarrow> cfg_User c),
       SSHKey = (case Annotations a sshKeyAnnotation of Some val \<Rightarrow> val | None \<Rightarrow> cfg_SSHKey c),
       SSHPassword = cfg_SSHPassword c,
       SSHKnownHosts = cfg_SSHKnownHosts c,
       SSHHostKeyAlgorithms = cfg_SSHHostKeyAlgorithms c,
       SSHConnectionTimeout = 0,
       SSHCommandTimeout =
         (case Annotations a sshCommandTimeout of
            Some val \<Rightarrow>
              (case time_ParseDuration e val of
                 Inr t \<Rightarrow> t | Inl err \<Rightarrow> cfg_SSHCommandTimeout c)
          | None \<Rightarrow> cfg_SSHCommandTimeout c),
       SSHHost = (case Annotations a sshHostAnnotation of Some val \<Rightarrow> val | None \<Rightarrow> ''''),
       SSHCommand = (case Annotations a sshCommandAnnotation of Some val \<Rightarrow> val | None \<Rightarrow> ''''),
       LocalCommand =
         (case Annotations a localCommandAnnotation of Some val \<Rightarrow> val | None \<Rightarrow> ''''),
       LocalCommandTimeout =
         (case Annotations a localCommandTimeout of
            Some val \<Rightarrow>
              (case time_ParseDuration e val of
                 Inr t \<Rightarrow> t | Inl err \<Rightarrow> cfg_LocalCommandTimeout c)
          | None \<Rightarrow> cfg_LocalCommandTimeout c)\<rparr>,
      w\<lparr>logged := logged w @ [(LevelDebug, lg @ [(''msg'', Str ''Handling alert'')])] @
           (case Annotations a sshCommandTimeout of
              Some val \<Rightarrow>
                (case time_ParseDuration e val of
                   Inr t \<Rightarrow> []
                 | Inl err \<Rightarrow>
                     [(LevelError, lg @ [(''msg'', Str ''Unable to parse SSH command timeout''),
                                         (''err'', ErrVal err), (''timeout'', Str val)])])
            | None \<Rightarrow> []) @
           (case Annotations a localCommandTimeout of
              Some val \<Rightarrow>
                (case time_ParseDuration e val of
                   Inr t \<Rightarrow> []
                 | Inl err \<Rightarrow>
                     [(LevelError, lg @ [(''msg'', Str ''Unable to parse local command timeout''),
                                         (''err'', ErrVal err), (''timeout'', Str val)])])
            | None \<Rightarrow> [])\<rparr>)"
proof -
  define w1 where "w1 = Log LevelDebug lg [(''msg'', Str ''Handling alert'')] w"
  define r0 where "r0 =
     \<lparr>User = cfg_User c, SSHKey = cfg_SSHKey c, SSHPassword = cfg_SSHPassword c,
      SSHKnownHosts = cfg_SSHKnownHosts c, SSHHostKeyAlgorithms = cfg_SSHHostKeyAlgorithms c,
      SSHConnectionTimeout = 0, SSHCommandTimeout = cfg_SSHCommandTimeout c,
      SSHHost = '''', SSHCommand = '''', LocalCommand = '''',
      LocalCommandTimeout = cfg_LocalCommandTimeout c\<rparr>"
  define r1 where "r1 = (case Annotations a userAnnotation of
                  Some val \<Rightarrow> r0\<lparr>User := val\<rparr> | None \<Rightarrow> r0)"
  define r2 where "r2 = (case Annotations a sshKeyAnnotation of
                  Some val \<Rightarrow> r1\<lparr>SSHKey := val\<rparr> | None \<Rightarrow> r1)"
  define r3 where "r3 = (case Annotations a sshHostAnnotation of
                  Some val \<Rightarrow> r2\<lparr>SSHHost := val\<rparr> | None \<Rightarrow> r2)"
  define r4 where "r4 = (case Annotations a sshCommandAnnotation of
                  Some val \<Rightarrow> r3\<lparr>SSHCommand := val\<rparr> | None \<Rightarrow> r3)"
  define p5 where "p5 = (case Annotations a sshCommandTimeout of
                  Some val \<Rightarrow>
                    (case time_ParseDuration e val of
                       Inr timeout \<Rightarrow> (r4\<lparr>SSHCommandTimeout := timeout\<rparr>, w1)
                     | Inl err \<Rightarrow>
                         (r4, Log LevelError lg
                                [(''msg'', Str ''Unable to parse SSH command timeout''),
                                 (''err'', ErrVal err), (''timeout'', Str val)] w1))
                | None \<Rightarrow> (r4, w1))"
  define r6 where "r6 = (case Annotations a localCommandAnnotation of
                  Some val \<Rightarrow> (fst p5)\<lparr>LocalCommand := val\<rparr> | None \<Rightarrow> fst p5)"
  define p7 where "p7 = (case Annotations a localCommandTimeout of
                  Some val \<Rightarrow>
                    (case time_ParseDuration e val of
                       Inr timeout \<Rightarrow> (r6\<lparr>LocalCommandTimeout := timeout\<rparr>, snd p5)
                     | Inl err \<Rightarrow>
                         (r6, Log LevelError lg
                                [(''msg'', Str ''Unable to parse local command timeout''),
                                 (''err'', ErrVal err), (''timeout'', Str val)] (snd p5)))
                | None \<Rightarrow> (r6, snd p5))"
  have eq: "HandleAlert_response e c a logger w = (fst p7, snd p7)"
    unfolding HandleAlert_response_def Let_def split_beta
      p7_def r6_def p5_def r4_def r3_def r2_def r1_def r0_def w1_def lg_def
    by (rule refl)
  have s1: "r1 = r0\<lparr>User := (case Annotations a userAnnotation of
                                Some val \<Rightarrow> val | None \<Rightarrow> cfg_User c)\<rparr>"
    by (simp add: r1_def r0_def split: option.splits)
  have s2: "r2 = r1\<lparr>SSHKey := (case Annotations a sshKeyAnnotation of
                                  Some val \<Rightarrow> val | None \<Rightarrow> cfg_SSHKey c)\<rparr>"
    by (simp add: r2_def s1 r0_def split: option.splits)
  have s3: "r3 = r2\<lparr>SSHHost := (case Annotations a sshHostAnnotation of
                                   Some val \<Rightarrow> val | None \<Rightarrow> '''')\<rparr>"
    by (simp add: r3_def s2 s1 r0_def split: option.splits)
  have s4: "r4 = r3\<lparr>SSHCommand := (case Annotations a sshCommandAnnotation of
                                      Some val \<Rightarrow> val | None \<Rightarrow> '''')\<rparr>"
    by (simp add: r4_def s3 s2 s1 r0_def split: option.splits)
  have s5: "fst p5 = r4\<lparr>SSHCommandTimeout :=
                (case Annotations a sshCommandTimeout of
                   Some val \<Rightarrow>
                     (case time_ParseDuration e val of
                        Inr t \<Rightarrow> t | Inl err \<Rightarrow> cfg_SSHCommandTimeout c)
                 | None \<Rightarrow> cfg_SSHCommandTimeout c)\<rparr>"
    by (simp add: p5_def s4 s3 s2 s1 r0_def split: option.splits sum.splits)
  have s6: "r6 = (fst p5)\<lparr>LocalCommand := (case Annotations a localCommandAnnotation of
                                             Some val \<Rightarrow> val | None \<Rightarrow> '''')\<rparr>"
    by (simp add: r6_def s5 s4 s3 s2 s1 r0_def split: option.splits)
  have s7: "fst p7 = r6\<lparr>LocalCommandTimeout :=
                (case Annotations a localCommandTimeout of
                   Some val \<Rightarrow>
                     (case time_ParseDuration e val of
                        Inr t \<Rightarrow> t | Inl err \<Rightarrow> cfg_LocalCommandTimeout c)
                 | None \<Rightarrow> cfg_LocalCommandTimeout c)\<rparr>"
    by (simp add: p7_def s6 s5 s4 s3 s2 s1 r0_def split: option.splits sum.splits)
  have v5: "snd p5 = w\<lparr>logged := logged w @ [(LevelDebug, lg @ [(''msg'', Str ''Handling alert'')])] @
           (case Annotations a sshCommandTimeout of
              Some val \<Rightarrow>
                (case time_ParseDuration e val of
                   Inr t \<Rightarrow> []
                 | Inl err \<Rightarrow>
                     [(LevelError, lg @ [(''msg'', Str ''Unable to parse SSH command timeout''),
                                         (''err'', ErrVal err), (''timeout'', Str val)])])
            | None \<Rightarrow> [])\<rparr>"
    by (simp add: p5_def w1_def Log_def split: option.splits sum.splits)
  have v7: "snd p7 = (snd p5)\<lparr>logged := logged (snd p5) @
           (case Annotations a localCommandTimeout of
              Some val \<Rightarrow>
                (case time_ParseDuration e val of
                   Inr t \<Rightarrow> []
                 | Inl err \<Rightarrow>
                     [(LevelError, lg @ [(''msg'', Str ''Unable to parse local command timeout''),
                                         (''err'', ErrVal err), (''timeout'', Str val)])])
            | None \<Rightarrow> [])\<rparr>"
    by (simp add: p7_def Log_def split: option.splits sum.splits)
  show ?thesis
    by (simp add: eq s7 s6 s5 s4 s3 s2 s1 r0_def v7 v5)
qed

lemma HandleAlert_response_fields:
  fixes e c a logger w
  defines "r \<equiv> fst (HandleAlert_response e c a logger w)"
    and "w' \<equiv> snd (HandleAlert_response e c a logger w)"
    and "lg \<equiv> alert_logger a logger"
  shows "SSHHost r = (case Annotations a sshHostAnnotation of Some val \<Rightarrow> val | None \<Rightarrow> '''')"
    and "SSHCommand r = (case Annotations a sshCommandAnnotation of Some val \<Rightarrow> val | None \<Rightarrow> '''')"
    and "LocalCommand r = (case Annotations a localCommandAnnotation of Some val \<Rightarrow> val | None \<Rightarrow> '''')"
    and "SSHConnectionTimeout r = 0"
    and "SSHCommandTimeout r =
           (case Annotations a sshCommandTimeout of
              Some val \<Rightarrow>
                (case time_ParseDuration e val of Inr t \<Rightarrow> t | Inl err \<Rightarrow> cfg_SSHCommandTimeout c)
            | None \<Rightarrow> cfg_SSHCommandTimeout c)"
    and "LocalCommandTimeout r =
           (case Annotations a localCommandTimeout of
              Some val \<Rightarrow>
                (case time_ParseDuration e val of Inr t \<Rightarrow> t | Inl err \<Rightarrow> cfg_LocalCommandTimeout c)
            | None \<Rightarrow> cfg_LocalCommandTimeout c)"
    and "CommandErrorsTotal w' = CommandErrorsTotal w"
    and "effects w' = effects w"
    and "logged w' = logged w @ [(LevelDebug, lg @ [(''msg'', Str ''Handling alert'')])] @
           (case Annotations a sshCommandTimeout of
              Some val \<Rightarrow>
                (case time_ParseDuration e val of
                   Inr t \<Rightarrow> []
                 | Inl err \<Rightarrow>
                     [(LevelError, lg @ [(''msg'', Str ''Unable to parse SSH command timeout''),
                                         (''err'', ErrVal err), (''timeout'', Str val)])])
            | None \<Rightarrow> []) @
           (case Annotations a localCommandTimeout of
              Some val \<Rightarrow>
                (case time_ParseDuration e val of
                   Inr t \<Rightarrow> []
                 | Inl err \<Rightarrow>
                     [(LevelError, lg @ [(''msg'', Str ''Unable to parse local command timeout''),
                                         (''err'', ErrVal err), (''timeout'', Str val)])])
            | None \<Rightarrow> [])"
  unfolding r_def w'_def lg_def by (simp_all add: HandleAlert_response_eq)

lemma HandleAlert_dispatch_idle:
  "LocalCommand r = '''' \<Longrightarrow> SSHCommand r = '''' \<Longrightarrow> HandleAlert_dispatch e lg r w = (None, w)"
  by (simp add: HandleAlert_dispatch_def)

subsection \<open>The log only grows, and each executor starts by logging\<close>

lemma logged_simps:
  "logged (Log lvl lg kvs w) = logged w @ [(lvl, lg @ kvs)]"
  "logged (Inc ty w) = logged w"
  "logged (perform x w) = logged w"
  by (simp_all add: Log_def Inc_def perform_def)

lemma world_simps:
  "effects (Log lvl lg kvs w) = effects w"
  "effects (Inc ty w) = effects w"
  "effects (perform x w) = effects w @ [x]"
  "CommandErrorsTotal (Log lvl lg kvs w) = CommandErrorsTotal w"
  "CommandErrorsTotal (Inc ty w) = (CommandErrorsTotal w)(ty := Suc (CommandErrorsTotal w ty))"
  "CommandErrorsTotal (perform x w) = CommandErrorsTotal w"
  by (simp_all add: Log_def Inc_def perform_def)









subsection \<open>The config resolver\<close>

text \<open>
  Claim C1. Every field of the action spec is the default value or the value of its
  annotation, the ssh connection timeout included. The composite literal of
  \<open>HandleAlert\<close> lists seven of the eight fields of the configuration and leaves
  \<open>SSHConnectionTimeout\<close> out, and no later statement assigns it: with a default of ten
  seconds and an alert without annotations, the field of the action spec is zero.
\<close>

theorem connection_timeout_left_zero:
  "cfg_SSHConnectionTimeout example_config = 10000000000 \<and>
   Annotations plain_alert = Map.empty \<and>
   SSHConnectionTimeout
     (fst (snd (HandleAlert example_env example_config plain_alert [] world0))) = 0"
  by (simp add: HandleAlert_def HandleAlert_response_def example_config_def plain_alert_def
        annotation_keys Let_def split_beta)

text \<open>
  Claim C10. The fields \<open>sshHost\<close>, \<open>sshCommand\<close> and \<open>localCommand\<close> of the action spec
  are empty whenever their annotation is absent, whatever the defaults; so an alert
  without the two command annotations leads to no action: \<open>HandleAlert\<close> returns no error,
  makes no call that leaves the process and leaves every counter as it was.
\<close>

theorem commands_empty_without_annotation:
  "(Annotations a sshHostAnnotation = None \<longrightarrow>
      SSHHost (fst (snd (HandleAlert e c a logger w))) = '''') \<and>
   (Annotations a sshCommandAnnotation = None \<longrightarrow>
      SSHCommand (fst (snd (HandleAlert e c a logger w))) = '''') \<and>
   (Annotations a localCommandAnnotation = None \<longrightarrow>
      LocalCommand (fst (snd (HandleAlert e c a logger w))) = '''') \<and>
   (Annotations a sshCommandAnnotation = None \<and> Annotations a localCommandAnnotation = None \<longrightarrow>
      fst (HandleAlert e c a logger w) = None \<and>
      effects (snd (snd (HandleAlert e c a logger w))) = effects w \<and>
      CommandErrorsTotal (snd (snd (HandleAlert e c a logger w))) = CommandErrorsTotal w)"
proof -
  obtain r w1 where rw: "HandleAlert_response e c a logger w = (r, w1)"
    by (cases "HandleAlert_response e c a logger w")
  obtain err w2 where d: "HandleAlert_dispatch e (alert_logger a logger) r w1 = (err, w2)"
    by (cases "HandleAlert_dispatch e (alert_logger a logger) r w1")
  have h: "HandleAlert e c a logger w = (err, r, w2)"
    by (simp add: HandleAlert_def rw d)
  have r: "r = fst (HandleAlert_response e c a logger w)"
    and w1: "w1 = snd (HandleAlert_response e c a logger w)"
    by (simp_all add: rw)
  have idle: "Annotations a sshCommandAnnotation = None \<and>
              Annotations a localCommandAnnotation = None \<longrightarrow> err = None \<and> w2 = w1"
    using d by (auto simp: r HandleAlert_response_fields HandleAlert_dispatch_idle)
  show ?thesis
    using idle by (auto simp: h r w1 HandleAlert_response_fields)
qed

theorem commands_empty_without_annotation_witness:
  "Annotations plain_alert sshHostAnnotation = None \<and>
   Annotations plain_alert sshCommandAnnotation = None \<and>
   Annotations plain_alert localCommandAnnotation = None \<and>
   cfg_User example_config = ''responder'' \<and>
   SSHHost (fst (snd (HandleAlert example_env example_config plain_alert [] world0))) = '''' \<and>
   SSHCommand (fst (snd (HandleAlert example_env example_config plain_alert [] world0))) = '''' \<and>
   LocalCommand (fst (snd (HandleAlert example_env example_config plain_alert [] world0))) = '''' \<and>
   fst (HandleAlert example_env example_config plain_alert [] world0) = None \<and>
   effects (snd (snd (HandleAlert example_env example_config plain_alert [] world0))) = [] \<and>
   CommandErrorsTotal
     (snd (snd (HandleAlert example_env example_config plain_alert [] world0))) ''ssh'' = 0"
  using commands_empty_without_annotation [of plain_alert example_env example_config "[]" world0]
  by (simp add: plain_alert_def world0_def example_config_def)



subsection \<open>The dispatcher\<close>

text \<open>
  Claim C9. For an action spec whose \<open>localCommand\<close> and \<open>sshCommand\<close> are both empty the
  dispatcher invokes no executor, increments no counter and returns no error: it returns
  \<open>nil\<close> and leaves the world (counters, log, calls out of the process) exactly as it was.
\<close>

theorem dispatch_no_command:
  "LocalCommand r = '''' \<and> SSHCommand r = '''' \<longrightarrow>
   HandleAlert_dispatch e a_logger r w = (None, w)"
  by (simp add: HandleAlert_dispatch_def)

theorem dispatch_no_command_witness:
  "LocalCommand idle_response = '''' \<and> SSHCommand idle_response = '''' \<and>
   HandleAlert_dispatch example_env [] idle_response world0 = (None, world0)"
  using dispatch_no_command [of idle_response example_env "[]" world0]
  by (simp add: idle_response_def)

lemma dispatch_returns_ssh_result:
  assumes "SSHCommand r \<noteq> ''''"
  shows "\<exists>w1. fst (HandleAlert_dispatch e lg r w) = fst (runSSHCommand e (sshLogger lg r) r w1)"
  using assms
  by (auto simp: HandleAlert_dispatch_def Let_def split_beta)

text \<open>
  Claim C4. With both commands set the dispatcher attempts both paths and returns the last
  error met, if any error occurred. Both paths are attempted, but the one variable \<open>err\<close>
  is assigned by each path: when the local command fails and the SSH command then
  succeeds, the local error has been logged and counted, and the dispatcher returns \<open>nil\<close>.
\<close>

theorem local_error_lost_when_ssh_succeeds:
  "fst (runLocalCommand example_env (localLogger [] both_response) both_response world0) =
     Some (ErrorString ''exit status 1'') \<and>
   fst (HandleAlert_dispatch example_env [] both_response world0) = None \<and>
   CommandErrorsTotal (snd (HandleAlert_dispatch example_env [] both_response world0)) ''local'' = 1 \<and>
   CommandErrorsTotal (snd (HandleAlert_dispatch example_env [] both_response world0)) ''ssh'' = 0 \<and>
   effects (snd (HandleAlert_dispatch example_env [] both_response world0)) =
     [Spawn \<lparr>Path = ''false'', Args = [''false'']\<rparr> 30000000000, Dial ''db1:22'',
      ConnClose ''db1:22'']"
  by (simp add: HandleAlert_dispatch_def run_defs example_defs both_response_def)

subsection \<open>The SSH executor\<close>

lemma key_failure_returns_uncounted:
  assumes "SSHKey r \<noteq> ''''"
    and "os_ReadFile e (SSHKey r) = Inl err \<or>
         (\<exists>buffer. os_ReadFile e (SSHKey r) = Inr buffer \<and> ssh_ParsePrivateKey e buffer = Inl err)"
  shows "fst (runSSHCommand e lg r w) = Some err"
    and "CommandErrorsTotal (snd (runSSHCommand e lg r w)) = CommandErrorsTotal w"
    and "effects (snd (runSSHCommand e lg r w)) = effects w @ [ReadFile (SSHKey r)]"
  using assms
  by (auto simp: runSSHCommand_def runSSHCommand_auth_def getPrivateKeyAuth_def Let_def
                 world_simps)

text \<open>
  Claim C2. When the private key file cannot be read or parsed the SSH executor returns
  the failure at once, dials nothing and increments the error counter of type \<open>ssh\<close>.
  The first two hold; the return of line 74 is the only failing return of
  \<open>runSSHCommand\<close> without an increment. With a key path that does not exist the executor
  returns the error of the read, its only call out of the process is the read, and the
  counter stays at zero.
\<close>

theorem key_failure_not_counted:
  "fst (runSSHCommand example_env [] missing_key_response world0) =
     Some (ErrorString ''open /missing/id_ed25519: no such file or directory'') \<and>
   effects (snd (runSSHCommand example_env [] missing_key_response world0)) =
     [ReadFile ''/missing/id_ed25519''] \<and>
   CommandErrorsTotal (snd (runSSHCommand example_env [] missing_key_response world0)) ''ssh'' = 0"
  by (simp add: run_defs example_defs missing_key_response_def)

lemma known_hosts_failure_counts_two:
  assumes "SSHKey r = ''''" "SSHKnownHosts r \<noteq> ''''"
    and "known_hosts_file e (SSHKnownHosts r) = Inl (ErrorString m)"
    and "net_Dial e (SSHHost r) (SSHConnectionTimeout r) = Inr srv"
    and "srv_hostkey srv (SSHHostKeyAlgorithms r) = Inr key"
  shows "fst (runSSHCommand e lg r w) = Some (ErrorString (''ssh: handshake failed: '' @ m))"
    and "CommandErrorsTotal (snd (runSSHCommand e lg r w)) ''ssh'' =
           Suc (Suc (CommandErrorsTotal w ''ssh''))"
  using assms
  by (simp_all add: runSSHCommand_def runSSHCommand_auth_def ssh_Dial_def hostKeyCallback_def
                    knownhosts_New_def handshake_failed_def Let_def world_simps)

text \<open>
  The key exchange comes before the host key callback: when the server has none of the
  host key algorithms asked for, the callback is not called, the known-hosts file is not
  read, and the failure is counted once, at line 89.
\<close>

lemma no_common_algorithm_counted_once:
  "fst (runSSHCommand example_env [] rsa_only_response world0) =
     Some (ErrorString
       (''ssh: handshake failed: ssh: no common algorithm for host key; '' @
        ''client offered: [ssh-rsa], server offered: [ssh-ed25519]'')) \<and>
   effects (snd (runSSHCommand example_env [] rsa_only_response world0)) = [Dial ''db1:22''] \<and>
   CommandErrorsTotal (snd (runSSHCommand example_env [] rsa_only_response world0)) ''ssh'' = 1"
  by (simp add: run_defs example_defs bracketed_def rsa_only_response_def
        missing_known_hosts_response_def)

text \<open>
  With neither a key nor a password the one entry of \<open>Auth\<close> is nil (line 68 declares
  \<open>auth\<close> and no branch of lines 70 to 78 assigns it): on a server that refuses the method
  \<open>none\<close>, \<open>ssh.Dial\<close> panics. Nothing is counted, and the dispatcher logs nothing after
  the first line of the executor.
\<close>

lemma nil_auth_method_panics:
  "fst (HandleAlert_dispatch example_env [] no_auth_response world0) =
     Some (Panic ''runtime error: invalid memory address or nil pointer dereference'') \<and>
   effects (snd (HandleAlert_dispatch example_env [] no_auth_response world0)) = [Dial ''db1:22''] \<and>
   CommandErrorsTotal (snd (HandleAlert_dispatch example_env [] no_auth_response world0)) ''ssh'' = 0 \<and>
   logged (snd (HandleAlert_dispatch example_env [] no_auth_response world0)) =
     [(LevelInfo, sshLogger [] no_auth_response @ [(''msg'', Str ''Running SSH command'')])]"
  by (simp add: HandleAlert_dispatch_def run_defs example_defs no_auth_response_def)

text \<open>
  Claim C3. One execution attempt increments the error counter once when it fails or times
  out and never more than once, also when the construction of the known-hosts verifier
  fails. In that case \<open>hostKeyCallback\<close> increments the counter (line 158) and returns the
  error, the handshake fails with it, and \<open>runSSHCommand\<close> increments the counter again
  (line 89): one attempt with a known-hosts path that does not exist leaves the counter
  at two.
\<close>

theorem known_hosts_failure_counted_twice:
  "fst (runSSHCommand example_env [] missing_known_hosts_response world0) =
     Some (ErrorString
       ''ssh: handshake failed: open /missing/known_hosts: no such file or directory'') \<and>
   CommandErrorsTotal world0 ''ssh'' = 0 \<and>
   CommandErrorsTotal
     (snd (runSSHCommand example_env [] missing_known_hosts_response world0)) ''ssh'' = 2"
  by (simp add: run_defs example_defs missing_known_hosts_response_def)

lemma accepted_keys_iff:
  "(key \<in> snd ` {entry \<in> set entries. fst entry = hostname}) = ((hostname, key) \<in> set entries)"
  by force

text \<open>
  Claim C6. The host-key policy, for every host name, remote address and presented key:
  with an empty known-hosts path the key is accepted; with a non-empty path the key is
  accepted exactly when the known-hosts file at that path can be read and has an entry for
  the host name with that key; and a server whose key has no such entry has its
  connection rejected: the dial fails.
\<close>

theorem host_key_policy:
  "(knownHosts = '''' \<longrightarrow>
      fst (hostKeyCallback e knownHosts logger hostname remote key w) = None) \<and>
   (knownHosts \<noteq> '''' \<longrightarrow>
      (fst (hostKeyCallback e knownHosts logger hostname remote key w) = None) =
      known_hosts_match e knownHosts hostname key) \<and>
   (knownHosts \<noteq> '''' \<and> net_Dial e hostname (cc_Timeout config) = Inr srv \<and>
    srv_hostkey srv (cc_HostKeyAlgorithms config) = Inr key \<and>
    cc_HostKeyCallback config = hostKeyCallback e knownHosts logger \<and>
    \<not> known_hosts_match e knownHosts hostname key \<longrightarrow>
      isl (fst (ssh_Dial e hostname config w)))"
proof -
  have accept: "knownHosts = '''' \<longrightarrow>
      fst (hostKeyCallback e knownHosts logger hostname remote key w) = None"
    by (simp add: hostKeyCallback_def ssh_InsecureIgnoreHostKey_def)
  have verify: "knownHosts \<noteq> '''' \<longrightarrow>
      (fst (hostKeyCallback e knownHosts logger hostname remote' key w') = None) =
      known_hosts_match e knownHosts hostname key" for remote' w'
    by (simp add: hostKeyCallback_def knownhosts_New_def known_hosts_match_def Let_def
          accepted_keys_iff split: sum.splits)
  have reject: "isl (fst (ssh_Dial e hostname config w))"
    if "knownHosts \<noteq> ''''" "net_Dial e hostname (cc_Timeout config) = Inr srv"
       "srv_hostkey srv (cc_HostKeyAlgorithms config) = Inr key"
       "cc_HostKeyCallback config = hostKeyCallback e knownHosts logger"
       "\<not> known_hosts_match e knownHosts hostname key"
  proof -
    obtain res w2 where cb:
      "hostKeyCallback e knownHosts logger hostname (srv_remote srv) key
         (perform (Dial hostname) w) = (res, w2)"
      by (cases "hostKeyCallback e knownHosts logger hostname (srv_remote srv) key
                   (perform (Dial hostname) w)")
    have "res \<noteq> None"
      using verify [of "srv_remote srv" "perform (Dial hostname) w"] that(1,5)
      by (simp add: cb)
    then show ?thesis
      using that(2,3,4) cb
      by (auto simp: ssh_Dial_def Let_def)
  qed
  show ?thesis
    using accept verify [of remote w] reject by blast
qed

theorem host_key_policy_witness:
  "fst (hostKeyCallback example_env '''' [] ''db1:22'' ''10.0.0.5:22'' ''ANY-KEY'' world0) = None \<and>
   ''/etc/responder/known_hosts'' \<noteq> '''' \<and>
   known_hosts_file example_env ''/etc/responder/known_hosts'' =
     Inr [(''web1:22'', ''HOSTKEY-WEB1''), (''db1:22'', ''HOSTKEY-DB1'')] \<and>
   known_hosts_match example_env ''/etc/responder/known_hosts'' ''db1:22'' ''HOSTKEY-DB1'' \<and>
   fst (hostKeyCallback example_env ''/etc/responder/known_hosts'' [] ''db1:22'' ''10.0.0.5:22''
          ''HOSTKEY-DB1'' world0) = None \<and>
   \<not> known_hosts_match example_env ''/etc/responder/known_hosts'' ''db1:22'' ''HOSTKEY-WEB1'' \<and>
   fst (hostKeyCallback example_env ''/etc/responder/known_hosts'' [] ''db1:22'' ''10.0.0.5:22''
          ''HOSTKEY-WEB1'' world0) \<noteq> None \<and>
   net_Dial example_env ''db2:22'' 0 = Inr example_server2 \<and>
   srv_hostkey example_server2 [] = Inr ''HOSTKEY-DB2'' \<and>
   \<not> known_hosts_match example_env ''/etc/responder/known_hosts'' ''db2:22'' ''HOSTKEY-DB2'' \<and>
   isl (fst (ssh_Dial example_env ''db2:22''
              \<lparr>cc_User = ''responder'', cc_Auth = [Some (Password ''secret'')],
               cc_HostKeyCallback = hostKeyCallback example_env ''/etc/responder/known_hosts'' [],
               cc_HostKeyAlgorithms = [], cc_Timeout = 0\<rparr> world0))"
proof -
  have f: "known_hosts_file example_env ''/etc/responder/known_hosts'' =
             Inr [(''web1:22'', ''HOSTKEY-WEB1''), (''db1:22'', ''HOSTKEY-DB1'')]"
    by (simp add: example_env_def example_known_hosts_def)
  have m: "known_hosts_match example_env ''/etc/responder/known_hosts'' ''db1:22'' ''HOSTKEY-DB1''"
    by (simp add: known_hosts_match_def f)
  have x: "\<not> known_hosts_match example_env ''/etc/responder/known_hosts'' ''db1:22'' ''HOSTKEY-WEB1''"
    by (simp add: known_hosts_match_def f)
  have n: "net_Dial example_env ''db2:22'' 0 = Inr example_server2"
    by (simp add: example_env_def example_net_def)
  have k: "srv_hostkey example_server2 [] = Inr ''HOSTKEY-DB2''"
    by (simp add: example_server2_def example_server_def example_hostkey_def)
  have u: "\<not> known_hosts_match example_env ''/etc/responder/known_hosts'' ''db2:22'' ''HOSTKEY-DB2''"
    by (simp add: known_hosts_match_def f)
  show ?thesis
    using host_key_policy [of "''''" example_env "[]" "''db1:22''" "''10.0.0.5:22''" "''ANY-KEY''"
                              world0]
          host_key_policy [of "''/etc/responder/known_hosts''" example_env "[]" "''db1:22''"
                              "''10.0.0.5:22''" "''HOSTKEY-DB1''" world0]
          host_key_policy [of "''/etc/responder/known_hosts''" example_env "[]" "''db1:22''"
                              "''10.0.0.5:22''" "''HOSTKEY-WEB1''" world0]
          host_key_policy [of "''/etc/responder/known_hosts''" example_env "[]" "''db2:22''"
                              "''10.0.0.6:22''" "''HOSTKEY-DB2''" world0
                              "\<lparr>cc_User = ''responder'', cc_Auth = [Some (Password ''secret'')],
                                cc_HostKeyCallback =
                                  hostKeyCallback example_env ''/etc/responder/known_hosts'' [],
                                cc_HostKeyAlgorithms = [], cc_Timeout = 0\<rparr>"
                              example_server2]
          f m x n k u
    by simp
qed

subsection \<open>The local executor\<close>

lemma HandleAlert_dispatch_local_only:
  assumes "LocalCommand r \<noteq> ''''" "SSHCommand r = ''''"
  shows "HandleAlert_dispatch e lg r w =
     (let res = cmd_Run e \<lparr>Path = LocalCommand r, Args = [LocalCommand r]\<rparr> (LocalCommandTimeout r);
          w2 = perform (Spawn \<lparr>Path = LocalCommand r, Args = [LocalCommand r]\<rparr> (LocalCommandTimeout r))
                 (Log LevelInfo (localLogger lg r) [(''msg'', Str ''Running local command'')] w);
          done = Log LevelInfo (localLogger lg r)
                   [(''msg'', Str ''Command completed''), (''duration'', Elapsed)]
      in if ctx_DeadlineExceeded res then
           (Some (ErrorString (''Local command timed out: '' @ LocalCommand r)),
            done (Log LevelError (localLogger lg r)
                    [(''msg'', Str ''Failed to run local command''),
                     (''err'', ErrVal (ErrorString (''Local command timed out: '' @ LocalCommand r)))]
                    (Inc ''local''
                       (Log LevelError (localLogger lg r) [(''msg'', Str ''Local command timed out'')] w2))))
         else
           (case run_err res of
              Some err \<Rightarrow>
                (Some err,
                 done (Log LevelError (localLogger lg r)
                         [(''msg'', Str ''Failed to run local command''), (''err'', ErrVal err)]
                         (Inc ''local''
                            (Log LevelError (localLogger lg r)
                               [(''msg'', Str ''Error executing command''), (''err'', ErrVal err)] w2))))
            | None \<Rightarrow>
                (None,
                 done (Log LevelInfo (localLogger lg r)
                         [(''msg'', Str ''Local command completed''),
                          (''out'', Str (run_stdout res)), (''err'', Str (run_stderr res))] w2))))"
  using assms
  by (simp add: HandleAlert_dispatch_def runLocalCommand_def execCommand_def Let_def
           split: option.splits)

text \<open>
  Claim C5, as the code has it. The local executor spawns its command string as the name
  of the program to run, with no argument and without a shell. For an alert that sets a
  non-empty local command and no SSH command, the dispatcher invokes only the local
  executor: the one call out of the process is the spawn of the program so named, under
  the resolved local timeout (the default when the alert has no timeout annotation), and
  the \<open>ssh\<close> counter is unchanged. When that run ends without error before the deadline,
  \<open>HandleAlert\<close> returns no error, leaves every counter unchanged and logs the captured
  output; otherwise it returns an error and the \<open>local\<close> counter goes up by one.
\<close>

theorem local_command_spawned_by_name:
  "Annotations a localCommandAnnotation = Some lc \<and> lc \<noteq> '''' \<and>
   Annotations a sshCommandAnnotation = None \<longrightarrow>
   (let out = HandleAlert e c a logger w;
        r = fst (snd out);
        w' = snd (snd out);
        cmd = \<lparr>Path = lc, Args = [lc]\<rparr>;
        res = cmd_Run e cmd (LocalCommandTimeout r)
    in (Annotations a localCommandTimeout = None \<longrightarrow>
          LocalCommandTimeout r = cfg_LocalCommandTimeout c) \<and>
       effects w' = effects w @ [Spawn cmd (LocalCommandTimeout r)] \<and>
       CommandErrorsTotal w' ''ssh'' = CommandErrorsTotal w ''ssh'' \<and>
       (if \<not> ctx_DeadlineExceeded res \<and> run_err res = None
        then fst out = None \<and> CommandErrorsTotal w' = CommandErrorsTotal w \<and>
             (LevelInfo, localLogger (alert_logger a logger) r @
                [(''msg'', Str ''Local command completed''),
                 (''out'', Str (run_stdout res)), (''err'', Str (run_stderr res))])
               \<in> set (new_log w w')
        else fst out \<noteq> None \<and>
             CommandErrorsTotal w' ''local'' = Suc (CommandErrorsTotal w ''local'')))"
proof (intro impI, elim conjE)
  assume lc: "Annotations a localCommandAnnotation = Some lc" "lc \<noteq> ''''"
    and sc: "Annotations a sshCommandAnnotation = None"
  obtain r w1 where rw: "HandleAlert_response e c a logger w = (r, w1)"
    by (cases "HandleAlert_response e c a logger w")
  obtain err w2 where d: "HandleAlert_dispatch e (alert_logger a logger) r w1 = (err, w2)"
    by (cases "HandleAlert_dispatch e (alert_logger a logger) r w1")
  have h: "HandleAlert e c a logger w = (err, r, w2)"
    by (simp add: HandleAlert_def rw d)
  have r: "r = fst (HandleAlert_response e c a logger w)"
    and w1: "w1 = snd (HandleAlert_response e c a logger w)"
    by (simp_all add: rw)
  have cmds: "LocalCommand r = lc" "SSHCommand r = ''''"
    using lc sc by (simp_all add: r HandleAlert_response_fields)
  have dflt: "Annotations a localCommandTimeout = None \<longrightarrow>
                LocalCommandTimeout r = cfg_LocalCommandTimeout c"
    by (simp add: r HandleAlert_response_fields)
  have before: "effects w1 = effects w" "CommandErrorsTotal w1 = CommandErrorsTotal w"
    by (simp_all add: w1 HandleAlert_response_fields)
  obtain xs where xs: "logged w1 = logged w @ xs"
    using HandleAlert_response_fields(9) [of e c a logger w] by (simp add: w1)
  have new: "new_log w w2 = xs @ drop (length (logged w1)) (logged w2)"
    if "length (logged w1) \<le> length (logged w2)" "take (length (logged w1)) (logged w2) = logged w1"
    using that xs
    by (metis append_assoc append_eq_conv_conj append_take_drop_id new_log_def)
  define res where "res = cmd_Run e \<lparr>Path = lc, Args = [lc]\<rparr> (LocalCommandTimeout r)"
  have "HandleAlert_dispatch e (alert_logger a logger) r w1 =
     (let res = cmd_Run e \<lparr>Path = LocalCommand r, Args = [LocalCommand r]\<rparr> (LocalCommandTimeout r);
          w2 = perform (Spawn \<lparr>Path = LocalCommand r, Args = [LocalCommand r]\<rparr> (LocalCommandTimeout r))
                 (Log LevelInfo (localLogger (alert_logger a logger) r)
                    [(''msg'', Str ''Running local command'')] w1);
          done = Log LevelInfo (localLogger (alert_logger a logger) r)
                   [(''msg'', Str ''Command completed''), (''duration'', Elapsed)]
      in if ctx_DeadlineExceeded res then
           (Some (ErrorString (''Local command timed out: '' @ LocalCommand r)),
            done (Log LevelError (localLogger (alert_logger a logger) r)
                    [(''msg'', Str ''Failed to run local command''),
                     (''err'', ErrVal (ErrorString (''Local command timed out: '' @ LocalCommand r)))]
                    (Inc ''local''
                       (Log LevelError (localLogger (alert_logger a logger) r)
                          [(''msg'', Str ''Local command timed out'')] w2))))
         else
           (case run_err res of
              Some err \<Rightarrow>
                (Some err,
                 done (Log LevelError (localLogger (alert_logger a logger) r)
                         [(''msg'', Str ''Failed to run local command''), (''err'', ErrVal err)]
                         (Inc ''local''
                            (Log LevelError (localLogger (alert_logger a logger) r)
                               [(''msg'', Str ''Error executing command''), (''err'', ErrVal err)] w2))))
            | None \<Rightarrow>
                (None,
                 done (Log LevelInfo (localLogger (alert_logger a logger) r)
                         [(''msg'', Str ''Local command completed''),
                          (''out'', Str (run_stdout res)), (''err'', Str (run_stderr res))] w2))))"
    by (rule HandleAlert_dispatch_local_only) (simp_all add: cmds lc)
  then have run: "(err, w2) =
     (let w2 = perform (Spawn \<lparr>Path = lc, Args = [lc]\<rparr> (LocalCommandTimeout r))
                 (Log LevelInfo (localLogger (alert_logger a logger) r)
                    [(''msg'', Str ''Running local command'')] w1);
          done = Log LevelInfo (localLogger (alert_logger a logger) r)
                   [(''msg'', Str ''Command completed''), (''duration'', Elapsed)]
      in if ctx_DeadlineExceeded res then
           (Some (ErrorString (''Local command timed out: '' @ lc)),
            done (Log LevelError (localLogger (alert_logger a logger) r)
                    [(''msg'', Str ''Failed to run local command''),
                     (''err'', ErrVal (ErrorString (''Local command timed out: '' @ lc)))]
                    (Inc ''local''
                       (Log LevelError (localLogger (alert_logger a logger) r)
                          [(''msg'', Str ''Local command timed out'')] w2))))
         else
           (case run_err res of
              Some err \<Rightarrow>
                (Some err,
                 done (Log LevelError (localLogger (alert_logger a logger) r)
                         [(''msg'', Str ''Failed to run local command''), (''err'', ErrVal err)]
                         (Inc ''local''
                            (Log LevelError (localLogger (alert_logger a logger) r)
                               [(''msg'', Str ''Error executing command''), (''err'', ErrVal err)] w2))))
            | None \<Rightarrow>
                (None,
                 done (Log LevelInfo (localLogger (alert_logger a logger) r)
                         [(''msg'', Str ''Local command completed''),
                          (''out'', Str (run_stdout res)), (''err'', Str (run_stderr res))] w2))))"
    unfolding d cmds res_def [symmetric] Let_def .
  have eff: "effects w2 = effects w @ [Spawn \<lparr>Path = lc, Args = [lc]\<rparr> (LocalCommandTimeout r)]"
    using run before
    by (auto simp: Let_def world_simps split: if_splits option.splits)
  have ssh: "CommandErrorsTotal w2 ''ssh'' = CommandErrorsTotal w ''ssh''"
    using run before
    by (auto simp: Let_def world_simps split: if_splits option.splits)
  have ok: "err = None \<and> CommandErrorsTotal w2 = CommandErrorsTotal w \<and>
            (LevelInfo, localLogger (alert_logger a logger) r @
                [(''msg'', Str ''Local command completed''),
                 (''out'', Str (run_stdout res)), (''err'', Str (run_stderr res))])
               \<in> set (new_log w w2)"
    if "\<not> ctx_DeadlineExceeded res" "run_err res = None"
  proof -
    have w2: "w2 = Log LevelInfo (localLogger (alert_logger a logger) r)
                   [(''msg'', Str ''Command completed''), (''duration'', Elapsed)]
                  (Log LevelInfo (localLogger (alert_logger a logger) r)
                         [(''msg'', Str ''Local command completed''),
                          (''out'', Str (run_stdout res)), (''err'', Str (run_stderr res))]
                    (perform (Spawn \<lparr>Path = lc, Args = [lc]\<rparr> (LocalCommandTimeout r))
                 (Log LevelInfo (localLogger (alert_logger a logger) r)
                    [(''msg'', Str ''Running local command'')] w1)))"
      and e: "err = None"
      using run that by (simp_all add: Let_def)
    have "new_log w w2 = xs @ drop (length (logged w1)) (logged w2)"
      by (rule new) (simp_all add: w2 logged_simps)
    then show ?thesis
      using e before by (simp add: w2 logged_simps world_simps)
  qed
  have bad: "err \<noteq> None \<and> CommandErrorsTotal w2 ''local'' = Suc (CommandErrorsTotal w ''local'')"
    if "\<not> (\<not> ctx_DeadlineExceeded res \<and> run_err res = None)"
    using run that before
    by (auto simp: Let_def world_simps split: if_splits option.splits)
  show "let out = HandleAlert e c a logger w;
        r = fst (snd out);
        w' = snd (snd out);
        cmd = \<lparr>Path = lc, Args = [lc]\<rparr>;
        res = cmd_Run e cmd (LocalCommandTimeout r)
    in (Annotations a localCommandTimeout = None \<longrightarrow>
          LocalCommandTimeout r = cfg_LocalCommandTimeout c) \<and>
       effects w' = effects w @ [Spawn cmd (LocalCommandTimeout r)] \<and>
       CommandErrorsTotal w' ''ssh'' = CommandErrorsTotal w ''ssh'' \<and>
       (if \<not> ctx_DeadlineExceeded res \<and> run_err res = None
        then fst out = None \<and> CommandErrorsTotal w' = CommandErrorsTotal w \<and>
             (LevelInfo, localLogger (alert_logger a logger) r @
                [(''msg'', Str ''Local command completed''),
                 (''out'', Str (run_stdout res)), (''err'', Str (run_stderr res))])
               \<in> set (new_log w w')
        else fst out \<noteq> None \<and>
             CommandErrorsTotal w' ''local'' = Suc (CommandErrorsTotal w ''local''))"
    using dflt eff ssh ok bad
    by (simp add: h Let_def res_def [symmetric])
qed

theorem local_command_spawned_by_name_witness:
  "Annotations echo_alert localCommandAnnotation = Some ''echo hi'' \<and>
   Annotations echo_alert sshCommandAnnotation = None \<and>
   Annotations echo_alert localCommandTimeout = None \<and>
   effects (snd (snd (HandleAlert example_env example_config echo_alert [] world0))) =
     [Spawn \<lparr>Path = ''echo hi'', Args = [''echo hi'']\<rparr> 30000000000] \<and>
   fst (HandleAlert example_env example_config echo_alert [] world0) \<noteq> None \<and>
   CommandErrorsTotal
     (snd (snd (HandleAlert example_env example_config echo_alert [] world0))) ''local'' = 1 \<and>
   Annotations echo_only_alert localCommandAnnotation = Some ''echo'' \<and>
   Annotations echo_only_alert sshCommandAnnotation = None \<and>
   Annotations echo_only_alert localCommandTimeout = None \<and>
   effects (snd (snd (HandleAlert example_env example_config echo_only_alert [] world0))) =
     [Spawn \<lparr>Path = ''echo'', Args = [''echo'']\<rparr> 30000000000] \<and>
   fst (HandleAlert example_env example_config echo_only_alert [] world0) = None \<and>
   CommandErrorsTotal
     (snd (snd (HandleAlert example_env example_config echo_only_alert [] world0))) ''local'' = 0"
proof -
  have a: "Annotations echo_alert localCommandAnnotation = Some ''echo hi'' \<and> ''echo hi'' \<noteq> '''' \<and>
           Annotations echo_alert sshCommandAnnotation = None"
          "Annotations echo_alert localCommandTimeout = None"
    by (simp_all add: echo_alert_def annotation_keys)
  have b: "Annotations echo_only_alert localCommandAnnotation = Some ''echo'' \<and> ''echo'' \<noteq> '''' \<and>
           Annotations echo_only_alert sshCommandAnnotation = None"
          "Annotations echo_only_alert localCommandTimeout = None"
    by (simp_all add: echo_only_alert_def annotation_keys)
  have d: "cfg_LocalCommandTimeout example_config = 30000000000"
    by (simp add: example_config_def)
  have r1: "run_err (cmd_Run example_env \<lparr>Path = ''echo hi'', Args = [''echo hi'']\<rparr> 30000000000)
              \<noteq> None"
    by (simp add: example_env_def example_Run_def example_exec_def)
  have r2: "\<not> ctx_DeadlineExceeded
                (cmd_Run example_env \<lparr>Path = ''echo'', Args = [''echo'']\<rparr> 30000000000) \<and>
            run_err (cmd_Run example_env \<lparr>Path = ''echo'', Args = [''echo'']\<rparr> 30000000000) = None"
    by (simp add: example_env_def example_Run_def example_exec_def)
  have w: "effects world0 = [] \<and> CommandErrorsTotal world0 = (\<lambda>ty. 0)"
    by (simp add: world0_def)
  have t1: "effects (snd (snd (HandleAlert example_env example_config echo_alert [] world0))) =
              [Spawn \<lparr>Path = ''echo hi'', Args = [''echo hi'']\<rparr> 30000000000] \<and>
            fst (HandleAlert example_env example_config echo_alert [] world0) \<noteq> None \<and>
            CommandErrorsTotal
              (snd (snd (HandleAlert example_env example_config echo_alert [] world0))) ''local'' = 1"
    using local_command_spawned_by_name
            [of echo_alert "''echo hi''" example_env example_config "[]" world0] a d r1 w
    by (simp add: Let_def)
  have t2: "effects (snd (snd (HandleAlert example_env example_config echo_only_alert [] world0))) =
              [Spawn \<lparr>Path = ''echo'', Args = [''echo'']\<rparr> 30000000000] \<and>
            fst (HandleAlert example_env example_config echo_only_alert [] world0) = None \<and>
            CommandErrorsTotal
              (snd (snd (HandleAlert example_env example_config echo_only_alert [] world0))) ''local'' = 0"
    using local_command_spawned_by_name
            [of echo_only_alert "''echo''" example_env example_config "[]" world0] b d r2 w
    by (simp add: Let_def)
  show ?thesis
    using a b t1 t2 by simp
qed

text \<open>
  Claim C5 as the spec states it fails on the example machine, which has a shell and the
  program \<open>echo\<close>: the shell invocation \<open>sh -c "echo hi"\<close> would end without error and
  print \<open>hi\<close>, but the executor asks for a program whose name is the whole string
  \<open>echo hi\<close>; there is none, so the alert of the scenario ends in an error and the
  \<open>local\<close> counter goes from zero to one.
\<close>

theorem echo_hi_not_run_by_shell:
  "run_err (example_Run \<lparr>Path = ''sh'', Args = [''sh'', ''-c'', ''echo hi'']\<rparr> 30000000000) = None \<and>
   run_stdout (example_Run \<lparr>Path = ''sh'', Args = [''sh'', ''-c'', ''echo hi'']\<rparr> 30000000000) =
     ''hi'' @ [CHR 0x0A] \<and>
   Annotations echo_alert localCommandAnnotation = Some ''echo hi'' \<and>
   cfg_LocalCommandTimeout example_config = 30000000000 \<and>
   effects (snd (snd (HandleAlert example_env example_config echo_alert [] world0))) =
     [Spawn \<lparr>Path = ''echo hi'', Args = [''echo hi'']\<rparr> 30000000000] \<and>
   fst (HandleAlert example_env example_config echo_alert [] world0) =
     Some (ErrorString (''exec: '' @ quoted ''echo hi'' @ '': executable file not found in $PATH'')) \<and>
   CommandErrorsTotal world0 ''local'' = 0 \<and>
   CommandErrorsTotal
     (snd (snd (HandleAlert example_env example_config echo_alert [] world0))) ''local'' = 1"
  by (simp add: HandleAlert_def HandleAlert_response_def HandleAlert_dispatch_def run_defs
        example_defs echo_alert_def annotation_keys split_beta)

subsection \<open>The race between the worker and the timer\<close>

lemma returns_of_append: "returns_of (xs @ ys) = returns_of xs @ returns_of ys"
  by (induction xs rule: returns_of.induct) simp_all

lemma race_inv0: "race_inv race0"
  by (simp add: race_inv_def race0_def)

lemma main_step_inv:
  assumes "race_inv s" "main_step r s = Some s'"
  shows "race_inv s'"
  using assms
  by (cases "main_at s")
     (auto simp: main_step_def race_inv_def returns_of_append Let_def split: if_splits)

lemma worker_step_inv:
  assumes "race_inv s" "worker_step conn r s = Some s'"
  shows "race_inv s'"
  using assms
  by (cases "worker_at s")
     (auto simp: worker_step_def race_inv_def returns_of_append Let_def
           split: if_splits prod.splits option.splits)

lemma race_step_inv:
  assumes "race_inv s" "race_step conn r a s = Some s'"
  shows "race_inv s'"
proof (cases a)
  case Main
  then show ?thesis
    using assms main_step_inv by (simp add: race_step_def split: if_splits)
next
  case Timer
  then show ?thesis
    using assms by (auto simp: race_step_def race_inv_def split: if_splits)
next
  case Worker
  then show ?thesis
    using assms worker_step_inv by (simp add: race_step_def split: if_splits)
qed

lemma race_run_inv: "race_inv s \<Longrightarrow> race_inv (race_run conn r sched s)"
proof (induction sched arbitrary: s)
  case Nil
  then show ?case by simp
next
  case (Cons a sched)
  then show ?case
    by (cases "race_step conn r a s") (simp_all add: race_step_inv)
qed

lemma race_run_append:
  "race_run conn r (xs @ ys) s = race_run conn r ys (race_run conn r xs s)"
  by (induction xs arbitrary: s) (simp_all split: option.splits)

lemma worker_step_returned:
  "worker_step conn r s = Some s' \<Longrightarrow> returned s' = returned s"
  by (cases "worker_at s")
     (auto simp: worker_step_def Let_def split: if_splits prod.splits)

lemma race_step_returned:
  assumes "race_inv s" "returned s = Some out" "race_step conn r a s = Some s'"
  shows "returned s' = Some out"
proof (cases a)
  case Main
  have "main_at s = M_returned"
    using assms(1,2) by (auto simp: race_inv_def)
  then show ?thesis
    using assms(3) Main by (simp add: race_step_def main_step_def split: if_splits)
next
  case Timer
  then show ?thesis
    using assms by (auto simp: race_step_def split: if_splits)
next
  case Worker
  then show ?thesis
    using assms worker_step_returned by (simp add: race_step_def split: if_splits)
qed

lemma race_run_returned:
  "race_inv s \<Longrightarrow> returned s = Some out \<Longrightarrow> returned (race_run conn r sched s) = Some out"
proof (induction sched arbitrary: s)
  case Nil
  then show ?case by simp
next
  case (Cons a sched)
  show ?case
  proof (cases "race_step conn r a s")
    case None
    then show ?thesis using Cons by simp
  next
    case (Some s')
    have "race_inv s'" "returned s' = Some out"
      using Cons.prems Some race_step_inv race_step_returned by blast+
    then show ?thesis
      using Cons.IH Some by simp
  qed
qed

lemma timer_case_returns:
  assumes "race_inv s" "main_at s = M_select"
  shows "returned (race_run conn r [Timer, Main, Main, Main] s) = Some (Some (timeout_error r))"
proof -
  have "worker_at s \<noteq> W_panic"
    using assms by (auto simp: race_inv_def)
  then show ?thesis
    using assms(2) by (simp add: race_step_def main_step_def)
qed

lemma race_step_after_timer:
  assumes "race_inv s" "after_timer r s" "race_step conn r a s = Some s'"
  shows "after_timer r s'"
proof (cases a)
  case Main
  then have step: "main_step r s = Some s'"
    using assms(3) by (simp add: race_step_def split: if_splits)
  have ret: "returned_timeout r s \<longrightarrow> main_at s = M_returned"
    using assms(1) by (auto simp: race_inv_def returned_timeout_def)
  show ?thesis
  proof (cases "main_at s")
    case M_114
    then show ?thesis
      using step assms(2) by (auto simp: main_step_def after_timer_def returned_timeout_def)
  next
    case M_115
    then show ?thesis
      using step assms(2) by (auto simp: main_step_def after_timer_def returned_timeout_def)
  next
    case M_116
    then show ?thesis
      using step assms(2) by (auto simp: main_step_def after_timer_def returned_timeout_def)
  next
    case M_returned
    then show ?thesis using step by (simp add: main_step_def)
  next
    case M_select
    then show ?thesis using assms(2) ret by (simp add: after_timer_def)
  next
    case M_120
    then show ?thesis using assms(2) ret by (simp add: after_timer_def)
  next
    case M_122
    then show ?thesis using assms(2) ret by (simp add: after_timer_def)
  qed
next
  case Timer
  then have "main_at s = M_select"
    using assms(3) by (simp add: race_step_def split: if_splits)
  moreover have "returned_timeout r s \<longrightarrow> main_at s = M_returned"
    using assms(1) by (auto simp: race_inv_def returned_timeout_def)
  ultimately show ?thesis
    using assms(2) by (simp add: after_timer_def)
next
  case Worker
  then have step: "worker_step conn r s = Some s'"
    using assms(3) by (simp add: race_step_def split: if_splits)
  have "returned s' = returned s" "main_at s' = main_at s"
    using step
    by (cases "worker_at s"; auto simp: worker_step_def Let_def split: if_splits prod.splits)+
  then show ?thesis
    using assms(2) by (simp add: after_timer_def returned_timeout_def)
qed

lemma race_run_after_timer:
  "race_inv s \<Longrightarrow> after_timer r s \<Longrightarrow> after_timer r (race_run conn r sched s)"
proof (induction sched arbitrary: s)
  case Nil
  then show ?case by simp
next
  case (Cons a sched)
  show ?case
  proof (cases "race_step conn r a s")
    case None
    then show ?thesis using Cons by simp
  next
    case (Some s')
    have "race_inv s'" "after_timer r s'"
      using Cons.prems Some race_step_inv race_step_after_timer by blast+
    then show ?thesis
      using Cons.IH Some by simp
  qed
qed

lemma timer_step:
  assumes "race_inv s" "main_at s = M_select"
  shows "race_step conn r Timer s = Some (s\<lparr>main_at := M_114\<rparr>)" "returned s = None"
  using assms by (auto simp: race_step_def race_inv_def)

lemma race_run_panicked:
  "worker_at s = W_panic \<Longrightarrow> race_run conn r sched s = s"
  by (induction sched) (simp_all add: race_step_def)

text \<open>
  What holds whenever the function gets to return after the timer case of the \<open>select\<close>
  has been taken: run on to its return by its own steps, it returns the timeout error; in
  whatever order the steps after the timer are taken, it has returned nothing or the
  timeout error; and once it has returned the timeout error, that stays what it has
  returned, and it has returned once.
\<close>

lemma timer_case_returns_timeout_only:
  "(main_at (race_run conn r sched race0) = M_select \<longrightarrow>
      returned_timeout r (race_run conn r (sched @ [Timer, Main, Main, Main]) race0) \<and>
      (returned (race_run conn r (sched @ Timer # later) race0) = None \<or>
       returned_timeout r (race_run conn r (sched @ Timer # later) race0))) \<and>
   (returned_timeout r (race_run conn r sched race0) \<longrightarrow>
      returned_timeout r (race_run conn r (sched @ later) race0) \<and>
      returns_of (happened (race_run conn r (sched @ later) race0)) = [Some (timeout_error r)])"
proof -
  define s where "s = race_run conn r sched race0"
  have inv: "race_inv s"
    unfolding s_def by (rule race_run_inv) (rule race_inv0)
  have fires: "main_at s = M_select \<longrightarrow>
      returned_timeout r (race_run conn r [Timer, Main, Main, Main] s)"
    using timer_case_returns [OF inv] by (simp add: returned_timeout_def)
  have only: "main_at s = M_select \<longrightarrow>
      returned (race_run conn r (Timer # later) s) = None \<or>
      returned_timeout r (race_run conn r (Timer # later) s)"
  proof
    assume at: "main_at s = M_select"
    have "after_timer r (s\<lparr>main_at := M_114\<rparr>)"
      using timer_step(2) [OF inv at] by (simp add: after_timer_def)
    moreover have "race_inv (s\<lparr>main_at := M_114\<rparr>)"
      using race_step_inv [OF inv timer_step(1) [OF inv at]] .
    ultimately have "after_timer r (race_run conn r later (s\<lparr>main_at := M_114\<rparr>))"
      by (intro race_run_after_timer)
    then show "returned (race_run conn r (Timer # later) s) = None \<or>
      returned_timeout r (race_run conn r (Timer # later) s)"
      using timer_step(1) [OF inv at] by (auto simp: after_timer_def)
  qed
  have stays: "returned_timeout r s \<longrightarrow>
      returned_timeout r (race_run conn r later s) \<and>
      returns_of (happened (race_run conn r later s)) = [Some (timeout_error r)]"
  proof
    assume "returned_timeout r s"
    then have "returned (race_run conn r later s) = Some (Some (timeout_error r))"
      using race_run_returned [OF inv] by (simp add: returned_timeout_def)
    moreover have "race_inv (race_run conn r later s)"
      using inv by (rule race_run_inv)
    ultimately show "returned_timeout r (race_run conn r later s) \<and>
      returns_of (happened (race_run conn r later s)) = [Some (timeout_error r)]"
      by (simp add: returned_timeout_def race_inv_def)
  qed
  show ?thesis
    using fires only stays by (simp add: race_run_append s_def)
qed

text \<open>
  Claim C7. An invocation whose command run exceeds the command timeout returns the
  timeout outcome exactly once, and nothing of the worker is delivered after it. The
  worker tests \<open>timeout\<close> at line 106 and sends on \<open>c1\<close> at line 107; the function sets
  \<open>timeout\<close> at line 114 and closes \<open>c1\<close> at line 115. Take a command that is still
  running when the timer fires and ends without error just after: the worker reads
  \<open>timeout\<close> as false before line 114 has run and sends after line 115 has. The send on
  the closed channel panics, and the invocation has returned nothing and returns nothing,
  whatever is scheduled afterwards.
\<close>

theorem timeout_lost_to_send_on_closed_channel:
  "main_at (race_run example_server uptime_response [Worker, Timer] race0) = M_114 \<and>
   worker_at (race_run example_server uptime_response [Worker, Timer] race0) = W_102 \<and>
   worker_at (race_run example_server uptime_response
                ([Worker, Timer, Worker, Worker, Main, Main, Worker] @ later) race0) = W_panic \<and>
   returned (race_run example_server uptime_response
               ([Worker, Timer, Worker, Worker, Main, Main, Worker] @ later) race0) = None \<and>
   happened (race_run example_server uptime_response
               ([Worker, Timer, Worker, Worker, Main, Main, Worker] @ later) race0) =
     [Worker_assigns_sessionerror None, Worker_assigns_commanderror None, Worker_panics]"
proof -
  define s where
    "s = race_run example_server uptime_response
           [Worker, Timer, Worker, Worker, Main, Main, Worker] race0"
  have fired: "main_at (race_run example_server uptime_response [Worker, Timer] race0) = M_114"
    "worker_at (race_run example_server uptime_response [Worker, Timer] race0) = W_102"
    by (simp_all add: race_step_def worker_step_def race0_def example_server_def)
  have s: "worker_at s = W_panic" "returned s = None"
    "happened s =
       [Worker_assigns_sessionerror None, Worker_assigns_commanderror None, Worker_panics]"
    unfolding s_def
    by (simp_all add: race_step_def main_step_def worker_step_def race0_def example_server_def)
  have "race_run example_server uptime_response
          ([Worker, Timer, Worker, Worker, Main, Main, Worker] @ later) race0 = s"
    unfolding race_run_append s_def [symmetric]
    by (rule race_run_panicked) (rule s(1))
  then show ?thesis
    using fired s by simp
qed

text \<open>
  The same run with the worker's test of line 106 taken after line 114: the worker reads
  \<open>timeout\<close> as true and ends without sending, and the function returns the timeout
  error.
\<close>

lemma flag_read_after_line_114_stops_worker:
  "worker_at (race_run example_server uptime_response
                [Worker, Timer, Worker, Main, Worker, Main, Main, Worker] race0) = W_done \<and>
   returned (race_run example_server uptime_response
               [Worker, Timer, Worker, Main, Worker, Main, Main, Worker] race0) =
     Some (Some (ErrorString ''Timeout executing SSH command: uptime'')) \<and>
   happened (race_run example_server uptime_response
               [Worker, Timer, Worker, Main, Worker, Main, Main, Worker] race0) =
     [Worker_assigns_sessionerror None, Worker_assigns_commanderror None,
      Main_returns (Some (ErrorString ''Timeout executing SSH command: uptime''))]"
  by (simp add: race_step_def main_step_def worker_step_def race0_def timeout_error_def
        example_server_def uptime_response_def idle_response_def)

text \<open>
  The worker's assignments to \<open>sessionerror\<close> and \<open>commanderror\<close> (lines 96 and 102) come
  before its test of \<open>timeout\<close> (line 106): with a command that is still running when the
  timer fires and that ends with an error, the function returns the timeout error while
  \<open>commanderror\<close> is \<open>nil\<close>, and the worker assigns the error to \<open>commanderror\<close> after that.
\<close>

lemma worker_writes_after_timeout:
  "returned (race_run slow_server uptime_response [Worker, Timer, Main, Main, Main] race0) =
     Some (Some (ErrorString ''Timeout executing SSH command: uptime'')) \<and>
   commanderror
     (vars (race_run slow_server uptime_response [Worker, Timer, Main, Main, Main] race0)) = None \<and>
   commanderror
     (vars (race_run slow_server uptime_response [Worker, Timer, Main, Main, Main, Worker] race0)) =
     Some (ErrorString ''wait: remote command exited without exit status or exit signal'') \<and>
   happened (race_run slow_server uptime_response [Worker, Timer, Main, Main, Main, Worker] race0) =
     [Worker_assigns_sessionerror None,
      Main_returns (Some (ErrorString ''Timeout executing SSH command: uptime'')),
      Worker_assigns_commanderror
        (Some (ErrorString ''wait: remote command exited without exit status or exit signal''))]"
  by (simp add: race_step_def main_step_def worker_step_def race0_def timeout_error_def
        slow_server_def example_server_def uptime_response_def idle_response_def)

subsection \<open>The race and its sequential reading\<close>

lemma race_facts0: "race_facts conn r race0"
  by (simp add: race_facts_def race0_def)

lemma main_step_facts:
  assumes "race_facts conn r s" "main_step r s = Some s'"
  shows "race_facts conn r s'"
proof (cases "main_at s")
  case M_select
  then have "c1_full s" "s' = s\<lparr>c1_full := False, main_at := M_120\<rparr>"
    using assms(2) by (simp_all add: main_step_def split: if_splits)
  then show ?thesis
    using assms(1) by (simp add: race_facts_def; blast)
next
  case M_114
  then have "s' = s\<lparr>timeout_flag := True, main_at := M_115\<rparr>"
    using assms(2) by (simp add: main_step_def)
  then show ?thesis
    using assms(1) M_114 by (simp add: race_facts_def; blast)
next
  case M_115
  then have "s' = s\<lparr>c1_closed := True, main_at := M_116\<rparr>"
    using assms(2) by (simp add: main_step_def)
  then show ?thesis
    using assms(1) M_115 by (simp add: race_facts_def; blast)
next
  case M_116
  then have "s' = s\<lparr>returned := Some (Some (timeout_error r)), main_at := M_returned,
                  happened := happened s @ [Main_returns (Some (timeout_error r))]\<rparr>"
    using assms(2) by (simp add: main_step_def)
  then show ?thesis
    using assms(1) M_116 by (simp add: race_facts_def; blast)
next
  case M_120
  then have "s' = s\<lparr>c1_closed := True, main_at := M_122\<rparr>"
    using assms(2) by (simp add: main_step_def)
  then show ?thesis
    using assms(1) M_120 by (simp add: race_facts_def; blast)
next
  case M_122
  then have ok: "sessionerror (vars s) = None" "commanderror (vars s) = None" "ok_run conn r"
    using assms(1) by (simp_all add: race_facts_def)
  have "s' = s\<lparr>returned := Some None, main_at := M_returned,
                  happened := happened s @ [Main_returns None]\<rparr>"
    using assms(2) M_122 ok by (simp add: main_step_def)
  then show ?thesis
    using assms(1) M_122 ok by (simp add: race_facts_def; blast)
next
  case M_returned
  then show ?thesis
    using assms(2) by (simp add: main_step_def)
qed


lemma worker_step_facts:
  assumes "race_facts conn r s" "worker_step conn r s = Some s'"
  shows "race_facts conn r s'"
proof (cases "worker_at s")
  case W_96
  then have s': "s' = s\<lparr>vars := (vars s)\<lparr>sessionerror := srv_NewSession conn\<rparr>,
                   worker_at := (if srv_NewSession conn \<noteq> None then W_done else W_102),
                   happened := happened s @ [Worker_assigns_sessionerror (srv_NewSession conn)]\<rparr>"
    using assms(2) by (simp add: worker_step_def Let_def)
  show ?thesis
    using assms(1) W_96 by (simp add: race_facts_def s'; blast)
next
  case W_102
  obtain err out errout where run: "srv_Run conn (SSHCommand r) = (err, out, errout)"
    by (cases "srv_Run conn (SSHCommand r)")
  have s': "s' = s\<lparr>vars := (vars s)\<lparr>commanderror := err, stdout := out, stderr := errout\<rparr>,
                   worker_at := (if err \<noteq> None then W_done else W_106),
                   happened := happened s @ [Worker_assigns_commanderror err]\<rparr>"
    using assms(2) W_102 by (simp add: worker_step_def run)
  have "sessionerror (vars s) = None" "srv_NewSession conn = None"
    using assms(1) W_102 by (simp_all add: race_facts_def)
  then show ?thesis
    using assms(1) W_102 by (simp add: race_facts_def s' ok_run_def run; blast)
next
  case W_106
  then have s': "s' = s\<lparr>worker_at := (if \<not> timeout_flag s then W_107 else W_done)\<rparr>"
    using assms(2) by (simp add: worker_step_def)
  show ?thesis
    using assms(1) W_106 by (simp add: race_facts_def s'; blast)
next
  case W_107
  have ok: "sessionerror (vars s) = None" "commanderror (vars s) = None" "ok_run conn r"
    using assms(1) W_107 by (simp_all add: race_facts_def)
  show ?thesis
  proof (cases "c1_closed s")
    case True
    then have "s' = s\<lparr>worker_at := W_panic, happened := happened s @ [Worker_panics]\<rparr>"
      using assms(2) W_107 by (simp add: worker_step_def)
    then show ?thesis
      using assms(1) W_107 by (simp add: race_facts_def; blast)
  next
    case False
    then have "s' = s\<lparr>vars := (vars s)\<lparr>sent := True\<rparr>, c1_full := True, worker_at := W_done,
                     happened := happened s @ [Worker_sends]\<rparr>"
      using assms(2) W_107 by (simp add: worker_step_def)
    then show ?thesis
      using assms(1) W_107 ok by (simp add: race_facts_def; blast)
  qed
next
  case W_done
  then show ?thesis
    using assms(2) by (simp add: worker_step_def)
next
  case W_panic
  then show ?thesis
    using assms(2) by (simp add: worker_step_def)
qed

lemma race_step_facts:
  assumes "race_facts conn r s" "race_step conn r a s = Some s'"
  shows "race_facts conn r s'"
proof (cases a)
  case Main
  then show ?thesis
    using assms main_step_facts by (simp add: race_step_def split: if_splits)
next
  case Timer
  then have "main_at s = M_select" "s' = s\<lparr>main_at := M_114\<rparr>"
    using assms(2) by (simp_all add: race_step_def split: if_splits)
  then show ?thesis
    using assms(1) by (simp add: race_facts_def; blast)
next
  case Worker
  then show ?thesis
    using assms worker_step_facts by (simp add: race_step_def split: if_splits)
qed

lemma race_run_facts: "race_facts conn r s \<Longrightarrow> race_facts conn r (race_run conn r sched s)"
proof (induction sched arbitrary: s)
  case Nil
  then show ?case by simp
next
  case (Cons a sched)
  then show ?case
    by (cases "race_step conn r a s") (simp_all add: race_step_facts)
qed

lemma select_outcome:
  "fst (runSSHCommand_select lg r conn w) =
     (if ok_run conn r \<and> srv_in_time conn (SSHCommand r) (SSHCommandTimeout r) then None
      else Some (timeout_error r))"
proof (cases "srv_NewSession conn")
  case (Some err)
  then show ?thesis
    by (simp add: runSSHCommand_select_def ssh_worker_def ok_run_def timeout_error_def)
next
  case None
  obtain err out errout where run: "srv_Run conn (SSHCommand r) = (err, out, errout)"
    by (cases "srv_Run conn (SSHCommand r)")
  show ?thesis
    using None
    by (cases err)
       (simp_all add: runSSHCommand_select_def ssh_worker_def ok_run_def timeout_error_def run)
qed

text \<open>
  The two readings agree on what the function returns: every return of the race is the
  result of \<open>runSSHCommand_select\<close> for one answer to \<open>srv_in_time\<close>, and the result of
  \<open>runSSHCommand_select\<close> is the return of one schedule of the race.
\<close>

lemma race_outcome_is_select_outcome:
  assumes "returned (race_run conn r sched race0) = Some out"
  shows "\<exists>b. out = fst (runSSHCommand_select lg r (conn\<lparr>srv_in_time := (\<lambda>cmd d. b)\<rparr>) w)"
proof -
  have "race_facts conn r (race_run conn r sched race0)"
    by (rule race_run_facts) (rule race_facts0)
  then have "out = Some (timeout_error r) \<or> out = None \<and> ok_run conn r"
    using assms by (simp add: race_facts_def; blast)
  then show ?thesis
  proof
    assume "out = Some (timeout_error r)"
    then have "out = fst (runSSHCommand_select lg r (conn\<lparr>srv_in_time := (\<lambda>cmd d. False)\<rparr>) w)"
      by (simp add: select_outcome)
    then show ?thesis ..
  next
    assume "out = None \<and> ok_run conn r"
    then have "out = fst (runSSHCommand_select lg r (conn\<lparr>srv_in_time := (\<lambda>cmd d. True)\<rparr>) w)"
      by (simp add: select_outcome ok_run_def)
    then show ?thesis ..
  qed
qed

lemma select_outcome_is_race_outcome:
  "\<exists>sched. returned (race_run conn r sched race0) = Some (fst (runSSHCommand_select lg r conn w))"
proof (cases "ok_run conn r \<and> srv_in_time conn (SSHCommand r) (SSHCommandTimeout r)")
  case True
  obtain out errout where run: "srv_Run conn (SSHCommand r) = (None, out, errout)"
    using True by (cases "srv_Run conn (SSHCommand r)") (simp add: ok_run_def)
  have "returned (race_run conn r [Worker, Worker, Worker, Worker, Main, Main, Main] race0) =
          Some None"
    using True by (simp add: race_step_def worker_step_def main_step_def race0_def ok_run_def run)
  also have "None = fst (runSSHCommand_select lg r conn w)"
    using True by (simp add: select_outcome)
  finally show ?thesis ..
next
  case False
  have "returned (race_run conn r [Timer, Main, Main, Main] race0) = Some (Some (timeout_error r))"
    by (simp add: race_step_def main_step_def race0_def)
  also have "Some (timeout_error r) = fst (runSSHCommand_select lg r conn w)"
    using False by (simp add: select_outcome)
  finally show ?thesis ..
qed

end
